theory Spec2Isabelle
  imports
    Main
    "HOL-Library.Sublist"
    "HOL-Library.Word"
    "HOL-Library.Char_ord"
    "HOL-Library.List_Lexorder"
begin

section \<open>The haveibeenpwned client\<close>

text \<open>
  A shallow embedding of \<^verbatim>\<open>haveibeenpwned.go\<close>: the shared request routine
  \<^verbatim>\<open>callService\<close> and the four operations \<^verbatim>\<open>BreachedAccount\<close>,
  \<^verbatim>\<open>Breaches\<close>, \<^verbatim>\<open>Breach\<close> and \<^verbatim>\<open>PasteAccount\<close>.

  Go strings are byte strings, modelled as \<^typ>\<open>string\<close> (a list of 8-bit characters).
  A Go function returning \<^verbatim>\<open>(T, error)\<close> returns a pair whose second component
  is \<^term>\<open>None\<close> for a nil error. A nil pointer dereference is the outcome
  \<open>Panicked\<close>. What the program does to the outside world (sending the request, reading and
  closing the response body) is recorded as a list of events beside the outcome.
\<close>

subsection \<open>Errors, outcomes, slices\<close>

datatype error =
    ErrorsNew string           \<comment> \<open>\<^verbatim>\<open>errors.New(msg)\<close>\<close>
  | TransportFailure string    \<comment> \<open>an error returned by \<^verbatim>\<open>client.Do\<close>, with its cause\<close>
  | ReadFailure string         \<comment> \<open>an error returned by \<^verbatim>\<open>ioutil.ReadAll\<close>\<close>
  | SyntaxError                \<comment> \<open>\<^verbatim>\<open>*json.SyntaxError\<close>: the text is not JSON\<close>
  | UnmarshalTypeError string  \<comment> \<open>\<^verbatim>\<open>*json.UnmarshalTypeError\<close>, with the Go type missed\<close>

datatype 'a outcome = Returned 'a | Panicked

text \<open>A Go slice is nil or holds a (possibly empty) sequence of elements.\<close>

datatype 'a slice = NilSlice | Slice "'a list"

fun len :: "'a slice \<Rightarrow> nat" where
  "len NilSlice = 0"
| "len (Slice xs) = length xs"

subsection \<open>\<^verbatim>\<open>net/url\<close>: query escaping and \<^verbatim>\<open>Values\<close>\<close>

text \<open>
  \<^verbatim>\<open>shouldEscape(c, encodeQueryComponent)\<close>: letters, digits and the four marks
  \<^verbatim>\<open>- _ . ~\<close> are kept, every other byte is escaped.
\<close>

definition shouldEscape :: "char \<Rightarrow> bool" where
  "shouldEscape c =
     (if (CHR ''a'' \<le> c \<and> c \<le> CHR ''z'') \<or> (CHR ''A'' \<le> c \<and> c \<le> CHR ''Z'')
          \<or> (CHR ''0'' \<le> c \<and> c \<le> CHR ''9'') then False
      else if c = CHR ''-'' \<or> c = CHR ''_'' \<or> c = CHR ''.'' \<or> c = CHR ''~'' then False
      else True)"

definition upperhex :: string where
  "upperhex = ''0123456789ABCDEF''"

text \<open>One byte of \<^verbatim>\<open>escape(s, encodeQueryComponent)\<close>.\<close>

definition escape_byte :: "char \<Rightarrow> string" where
  "escape_byte c =
     (if c = CHR '' '' then ''+''
      else if shouldEscape c then
        [CHR ''%'', upperhex ! (of_char c div 16), upperhex ! (of_char c mod 16)]
      else [c])"

definition QueryEscape :: "string \<Rightarrow> string" where
  "QueryEscape s = concat (map escape_byte s)"

text \<open>
  \<^verbatim>\<open>url.Values\<close> is a \<^verbatim>\<open>map[string][]string\<close>; here an association list with
  distinct keys. \<^verbatim>\<open>Add\<close> appends the value to the key's list. \<^verbatim>\<open>Encode\<close> walks
  the keys in sorted order (byte-wise, as Go compares strings) and writes
  \<^verbatim>\<open>key=value\<close> for every value, with \<^verbatim>\<open>&\<close> before every pair but the first.
\<close>

type_synonym Values = "(string \<times> string list) list"

definition Values_Get :: "Values \<Rightarrow> string \<Rightarrow> string list" where
  "Values_Get v key = (case map_of v key of None \<Rightarrow> [] | Some vs \<Rightarrow> vs)"

definition Values_Add :: "Values \<Rightarrow> string \<Rightarrow> string \<Rightarrow> Values" where
  "Values_Add v key val =
     (case map_of v key of
        None \<Rightarrow> v @ [(key, [val])]
      | Some vs \<Rightarrow> map (\<lambda>(k, ws). if k = key then (k, ws @ [val]) else (k, ws)) v)"

definition write_pair :: "string \<Rightarrow> string \<Rightarrow> string \<Rightarrow> string" where
  "write_pair keyEscaped val buf =
     (if buf \<noteq> [] then buf @ ''&'' else buf) @ keyEscaped @ ''='' @ QueryEscape val"

definition write_key :: "Values \<Rightarrow> string \<Rightarrow> string \<Rightarrow> string" where
  "write_key v k buf = fold (write_pair (QueryEscape k)) (Values_Get v k) buf"

definition Values_Encode :: "Values \<Rightarrow> string" where
  "Values_Encode v = fold (write_key v) (sort (map fst v)) []"

subsection \<open>Requests and responses\<close>

record URL =
  Scheme :: string
  Host :: string
  Path :: string
  RawQuery :: string

record Request =
  Method :: string
  Url :: URL
  Header :: "(string \<times> string) list"

text \<open>
  A response body is a stream: \<^verbatim>\<open>ioutil.ReadAll\<close> returns the bytes read and the
  error that stopped the reading, if any.
\<close>

record Response =
  StatusCode :: int
  Body :: "string \<times> error option"

definition ReadAll :: "string \<times> error option \<Rightarrow> string \<times> error option" where
  "ReadAll b = b"

datatype event = Send Request | ReadBody | CloseBody

subsection \<open>The JSON values of \<^verbatim>\<open>encoding/json\<close>\<close>

text \<open>
  A number is kept as the decoder sees it: \<open>JInt\<close> for a literal without fraction and
  exponent (the literals \<^verbatim>\<open>strconv.ParseInt\<close> reads), \<open>JNum\<close> with the literal's
  text for any other.
\<close>

datatype json =
    JNull
  | JBool bool
  | JInt int
  | JNum string
  | JString string
  | JArray "json list"
  | JObject "(string \<times> json) list"

subsection \<open>The environment of a call\<close>

text \<open>
  What the program takes from outside: the process environment (\<^verbatim>\<open>os.Getenv\<close>), the
  HTTP transport (\<^verbatim>\<open>client.Do\<close>, which returns a response pointer and an error, either
  of which may be nil) and the syntax of JSON texts (the scanner of
  \<^verbatim>\<open>encoding/json\<close>: \<^term>\<open>None\<close> for a text that is not JSON).
\<close>

record env =
  Getenv :: "string \<Rightarrow> string"
  Do :: "Request \<Rightarrow> Response option \<times> error option"
  parse :: "string \<Rightarrow> json option"

subsection \<open>\<^verbatim>\<open>callService\<close>\<close>

definition API :: string where
  "API = ''https://haveibeenpwned.com/api/v3/''"

text \<open>
  \<^verbatim>\<open>url.Parse(API)\<close>: the constant parses to this URL, so the error branch of line 150
  is never taken.
\<close>

definition parsed_API :: URL where
  "parsed_API = \<lparr>Scheme = ''https'', Host = ''haveibeenpwned.com'', Path = ''/api/v3/'',
     RawQuery = ''''\<rparr>"

text \<open>Lines 155 to 164: the query parameters.\<close>

definition parameters :: "string \<Rightarrow> bool \<Rightarrow> bool \<Rightarrow> Values" where
  "parameters domainFilter trunc unverified =
     (let p0 = [];
          p1 = (if domainFilter \<noteq> '''' then Values_Add p0 ''domain'' domainFilter else p0);
          p2 = (if trunc = False then Values_Add p1 ''truncateResponse'' ''false'' else p1);
          p3 = (if unverified then Values_Add p2 ''includeUnverified'' ''true'' else p2)
      in p3)"

text \<open>Lines 154 and 165: the URL of the request.\<close>

definition service_url :: "string \<Rightarrow> string \<Rightarrow> string \<Rightarrow> bool \<Rightarrow> bool \<Rightarrow> URL" where
  "service_url service account domainFilter trunc unverified =
     parsed_API\<lparr>Path := Path parsed_API @ service @ ''/'' @ account,
       RawQuery := Values_Encode (parameters domainFilter trunc unverified)\<rparr>"

type_synonym Headers = "(string \<times> string) list"

definition Header_Set :: "Headers \<Rightarrow> string \<Rightarrow> string \<Rightarrow> Headers" where
  "Header_Set h key val = (key, val) # filter (\<lambda>(k, _). k \<noteq> key) h"

text \<open>
  Lines 167 to 173. \<^verbatim>\<open>http.NewRequest\<close> parses the string of the URL it is given, which
  succeeds on what \<^verbatim>\<open>u.String()\<close> prints, so the error branch of line 168 is never
  taken.
\<close>

definition service_request ::
  "env \<Rightarrow> string \<Rightarrow> string \<Rightarrow> string \<Rightarrow> bool \<Rightarrow> bool \<Rightarrow> Request" where
  "service_request E service account domainFilter trunc unverified =
     (let req = \<lparr>Method = ''GET'',
                 Url = service_url service account domainFilter trunc unverified,
                 Header = []\<rparr>;
          req = req\<lparr>Header := Header_Set (Header req) ''User-Agent'' ''Go/1.15''\<rparr>;
          req = req\<lparr>Header :=
                  Header_Set (Header req) ''hibp-api-key'' (Getenv E ''HIBP_API_KEY'')\<rparr>
      in req)"

definition StatusBadRequest :: int where "StatusBadRequest = 400"
definition StatusUnauthorized :: int where "StatusUnauthorized = 401"
definition StatusNotFound :: int where "StatusNotFound = 404"
definition StatusTooManyRequests :: int where "StatusTooManyRequests = 429"

text \<open>
  The three errors of lines 178, 180 and 182, under the names that the specification gives to
  their kinds. The second message holds a dash of three bytes, the third two backquotes.
\<close>

definition InvalidFormat :: error where
  "InvalidFormat = ErrorsNew ''the account does not comply with an acceptable format''"

definition RateLimited :: error where
  "RateLimited = ErrorsNew (''too many requests '' @ [CHR 0xE2, CHR 0x80, CHR 0x94]
     @ '' the rate limit has been exceeded'')"

definition Unauthorized :: error where
  "Unauthorized = ErrorsNew (''valid header '' @ [CHR 0x60] @ ''hibp-api-key'' @ [CHR 0x60]
     @ '' required'')"

text \<open>
  Lines 174 to 188. The switch reads \<^verbatim>\<open>res.StatusCode\<close> before \<^verbatim>\<open>err\<close> is looked
  at: with a nil \<^verbatim>\<open>res\<close> that is a nil pointer dereference.
\<close>

definition callService ::
  "env \<Rightarrow> string \<Rightarrow> string \<Rightarrow> string \<Rightarrow> bool \<Rightarrow> bool
     \<Rightarrow> (Response option \<times> error option) outcome \<times> event list" where
  "callService E service account domainFilter trunc unverified =
     (let req = service_request E service account domainFilter trunc unverified in
      case Do E req of (res, err) \<Rightarrow>
        (case res of
           None \<Rightarrow> (Panicked, [Send req])
         | Some r \<Rightarrow>
             if StatusCode r = StatusBadRequest then
               (Returned (None, Some InvalidFormat), [Send req])
             else if StatusCode r = StatusTooManyRequests then
               (Returned (None, Some RateLimited), [Send req])
             else if StatusCode r = StatusUnauthorized then
               (Returned (None, Some Unauthorized), [Send req])
             else if err \<noteq> None then (Returned (None, err), [Send req])
             else (Returned (Some r, None), [Send req])))"

subsection \<open>The records of the API\<close>

text \<open>
  \<^verbatim>\<open>BreachModel\<close> and \<^verbatim>\<open>PasteModel\<close>, field for field. Go's \<^verbatim>\<open>int\<close> is the
  64-bit signed integer of the platforms the client runs on. The field \<^verbatim>\<open>Domain\<close> is
  \<open>Domain'\<close> and the \<^verbatim>\<open>Title\<close> of a paste is \<open>PasteTitle\<close>.
\<close>

record BreachModel =
  Name :: string
  Title :: string
  Domain' :: string
  BreachDate :: string
  AddedDate :: string
  ModifiedDate :: string
  PwnCount :: "64 word"
  Description :: string
  DataClasses :: "string slice"
  IsVerified :: bool
  IsFabricated :: bool
  IsSensitive :: bool
  IsRetired :: bool
  IsSpamList :: bool
  LogoPath :: string

record PasteModel =
  Source :: string
  ID :: string
  PasteTitle :: string
  Date :: string
  EmailCount :: "64 word"

text \<open>The zero values: what \<^verbatim>\<open>new(BreachModel)\<close> points to.\<close>

definition zero_BreachModel :: BreachModel where
  "zero_BreachModel = \<lparr>Name = [], Title = [], Domain' = [], BreachDate = [],
     AddedDate = [], ModifiedDate = [], PwnCount = 0, Description = [],
     DataClasses = NilSlice, IsVerified = False, IsFabricated = False, IsSensitive = False,
     IsRetired = False, IsSpamList = False, LogoPath = []\<rparr>"

definition zero_PasteModel :: PasteModel where
  "zero_PasteModel = \<lparr>Source = [], ID = [], PasteTitle = [], Date = [], EmailCount = 0\<rparr>"

subsection \<open>\<^verbatim>\<open>json.Unmarshal\<close>\<close>

text \<open>
  The decoder stores a JSON value into a Go value of a given type. A value of the wrong kind
  leaves the target as it is and is remembered as the error to return, the first such error
  being kept (\<^verbatim>\<open>saveError\<close>), and decoding goes on. \<^verbatim>\<open>null\<close> sets a pointer or
  a slice to nil and leaves every other target unchanged. The string of an
  \<open>UnmarshalTypeError\<close> names the Go type that the value did not fit.
\<close>

definition saveError :: "error option \<Rightarrow> error \<Rightarrow> error option" where
  "saveError saved e = (case saved of None \<Rightarrow> Some e | Some _ \<Rightarrow> saved)"

fun store_string :: "json \<Rightarrow> string \<Rightarrow> error option \<Rightarrow> string \<times> error option" where
  "store_string (JString s) old saved = (s, saved)"
| "store_string JNull old saved = (old, saved)"
| "store_string _ old saved = (old, saveError saved (UnmarshalTypeError ''string''))"

fun store_bool :: "json \<Rightarrow> bool \<Rightarrow> error option \<Rightarrow> bool \<times> error option" where
  "store_bool (JBool b) old saved = (b, saved)"
| "store_bool JNull old saved = (old, saved)"
| "store_bool _ old saved = (old, saveError saved (UnmarshalTypeError ''bool''))"

text \<open>An integer field takes an integer literal that fits 64 bits.\<close>

fun store_int :: "json \<Rightarrow> 64 word \<Rightarrow> error option \<Rightarrow> 64 word \<times> error option" where
  "store_int (JInt i) old saved =
     (if - (2 ^ 63) \<le> i \<and> i < 2 ^ 63 then (word_of_int i, saved)
      else (old, saveError saved (UnmarshalTypeError ''int'')))"
| "store_int JNull old saved = (old, saved)"
| "store_int _ old saved = (old, saveError saved (UnmarshalTypeError ''int''))"

text \<open>
  An array is stored into a slice element by element: an element within the length the slice
  had is decoded into the value that is there, a later one into a zero value. The empty array
  gives an empty slice that is not nil. (What lies between the length and the capacity of a
  slice that an earlier member of the same name has cut short is not modelled: it takes an
  object with three members of one name to see it.)
\<close>

fun store_array ::
  "(json \<Rightarrow> 'a \<Rightarrow> error option \<Rightarrow> 'a \<times> error option) \<Rightarrow> 'a \<Rightarrow> json list \<Rightarrow> 'a list
     \<Rightarrow> error option \<Rightarrow> 'a list \<times> error option" where
  "store_array store zero [] old saved = ([], saved)"
| "store_array store zero (x # xs) old saved =
     (case store x (case old of [] \<Rightarrow> zero | a # _ \<Rightarrow> a) saved of (a, saved1) \<Rightarrow>
      (case store_array store zero xs (tl old) saved1 of (as, saved2) \<Rightarrow> (a # as, saved2)))"

fun elems :: "'a slice \<Rightarrow> 'a list" where
  "elems NilSlice = []"
| "elems (Slice xs) = xs"

fun store_slice ::
  "(json \<Rightarrow> 'a \<Rightarrow> error option \<Rightarrow> 'a \<times> error option) \<Rightarrow> 'a \<Rightarrow> json \<Rightarrow> 'a slice
     \<Rightarrow> error option \<Rightarrow> 'a slice \<times> error option" where
  "store_slice store zero (JArray xs) old saved =
     (case store_array store zero xs (elems old) saved of (as, saved1) \<Rightarrow> (Slice as, saved1))"
| "store_slice store zero JNull old saved = (NilSlice, saved)"
| "store_slice store zero _ old saved = (old, saveError saved (UnmarshalTypeError ''slice''))"

text \<open>
  A member of an object goes to the field whose name is the member's name, or else to the
  field whose name equals it up to case. \<open>foldName\<close> is the folding as far as a name of
  ASCII letters can be reached: a lower-case letter folds to its upper-case letter, the long s
  (U+017F, the bytes C5 BF) to \<^verbatim>\<open>S\<close> and the Kelvin sign (U+212A, the bytes E2 84 AA) to
  \<^verbatim>\<open>K\<close>. A member that matches no field is skipped.
\<close>

fun foldName :: "string \<Rightarrow> string" where
  "foldName [] = []"
| "foldName (c # cs) =
     (if CHR ''a'' \<le> c \<and> c \<le> CHR ''z'' then char_of (of_char c - (32::nat)) # foldName cs
      else if c = CHR 0xC5 then
        (case cs of
           d # r \<Rightarrow> if d = CHR 0xBF then CHR ''S'' # foldName r else c # foldName cs
         | [] \<Rightarrow> c # foldName cs)
      else if c = CHR 0xE2 then
        (case cs of
           d # e # r \<Rightarrow>
             if d = CHR 0x84 \<and> e = CHR 0xAA then CHR ''K'' # foldName r else c # foldName cs
         | _ \<Rightarrow> c # foldName cs)
      else c # foldName cs)"

definition find_field :: "(string \<times> 'f) list \<Rightarrow> string \<Rightarrow> 'f option" where
  "find_field fs key =
     (case map_of fs key of
        Some f \<Rightarrow> Some f
      | None \<Rightarrow> map_of (map (\<lambda>(n, f). (foldName n, f)) fs) (foldName key))"

datatype breach_field =
    F_Name | F_Title | F_Domain | F_BreachDate | F_AddedDate | F_ModifiedDate | F_PwnCount
  | F_Description | F_DataClasses | F_IsVerified | F_IsFabricated | F_IsSensitive
  | F_IsRetired | F_IsSpamList | F_LogoPath

text \<open>The \<^verbatim>\<open>json\<close> tags of \<^verbatim>\<open>BreachModel\<close>, lines 19 to 33.\<close>

definition breach_fields :: "(string \<times> breach_field) list" where
  "breach_fields =
     [(''Name'', F_Name), (''Title'', F_Title), (''Domain'', F_Domain),
      (''BreachDate'', F_BreachDate), (''AddedDate'', F_AddedDate),
      (''ModifiedDate'', F_ModifiedDate), (''PwnCount'', F_PwnCount),
      (''Description'', F_Description), (''DataClasses'', F_DataClasses),
      (''IsVerified'', F_IsVerified), (''IsFabricated'', F_IsFabricated),
      (''IsSensitive'', F_IsSensitive), (''IsRetired'', F_IsRetired),
      (''IsSpamList'', F_IsSpamList), (''LogoPath'', F_LogoPath)]"

fun store_breach_field ::
  "breach_field \<Rightarrow> json \<Rightarrow> BreachModel \<Rightarrow> error option \<Rightarrow> BreachModel \<times> error option" where
  "store_breach_field F_Name v b saved =
     (case store_string v (Name b) saved of (x, e) \<Rightarrow> (b\<lparr>Name := x\<rparr>, e))"
| "store_breach_field F_Title v b saved =
     (case store_string v (Title b) saved of (x, e) \<Rightarrow> (b\<lparr>Title := x\<rparr>, e))"
| "store_breach_field F_Domain v b saved =
     (case store_string v (Domain' b) saved of (x, e) \<Rightarrow> (b\<lparr>Domain' := x\<rparr>, e))"
| "store_breach_field F_BreachDate v b saved =
     (case store_string v (BreachDate b) saved of (x, e) \<Rightarrow> (b\<lparr>BreachDate := x\<rparr>, e))"
| "store_breach_field F_AddedDate v b saved =
     (case store_string v (AddedDate b) saved of (x, e) \<Rightarrow> (b\<lparr>AddedDate := x\<rparr>, e))"
| "store_breach_field F_ModifiedDate v b saved =
     (case store_string v (ModifiedDate b) saved of (x, e) \<Rightarrow> (b\<lparr>ModifiedDate := x\<rparr>, e))"
| "store_breach_field F_PwnCount v b saved =
     (case store_int v (PwnCount b) saved of (x, e) \<Rightarrow> (b\<lparr>PwnCount := x\<rparr>, e))"
| "store_breach_field F_Description v b saved =
     (case store_string v (Description b) saved of (x, e) \<Rightarrow> (b\<lparr>Description := x\<rparr>, e))"
| "store_breach_field F_DataClasses v b saved =
     (case store_slice store_string [] v (DataClasses b) saved of
        (x, e) \<Rightarrow> (b\<lparr>DataClasses := x\<rparr>, e))"
| "store_breach_field F_IsVerified v b saved =
     (case store_bool v (IsVerified b) saved of (x, e) \<Rightarrow> (b\<lparr>IsVerified := x\<rparr>, e))"
| "store_breach_field F_IsFabricated v b saved =
     (case store_bool v (IsFabricated b) saved of (x, e) \<Rightarrow> (b\<lparr>IsFabricated := x\<rparr>, e))"
| "store_breach_field F_IsSensitive v b saved =
     (case store_bool v (IsSensitive b) saved of (x, e) \<Rightarrow> (b\<lparr>IsSensitive := x\<rparr>, e))"
| "store_breach_field F_IsRetired v b saved =
     (case store_bool v (IsRetired b) saved of (x, e) \<Rightarrow> (b\<lparr>IsRetired := x\<rparr>, e))"
| "store_breach_field F_IsSpamList v b saved =
     (case store_bool v (IsSpamList b) saved of (x, e) \<Rightarrow> (b\<lparr>IsSpamList := x\<rparr>, e))"
| "store_breach_field F_LogoPath v b saved =
     (case store_string v (LogoPath b) saved of (x, e) \<Rightarrow> (b\<lparr>LogoPath := x\<rparr>, e))"

definition store_breach_member ::
  "string \<times> json \<Rightarrow> BreachModel \<times> error option \<Rightarrow> BreachModel \<times> error option" where
  "store_breach_member m st =
     (case find_field breach_fields (fst m) of
        None \<Rightarrow> st
      | Some f \<Rightarrow> store_breach_field f (snd m) (fst st) (snd st))"

fun store_BreachModel ::
  "json \<Rightarrow> BreachModel \<Rightarrow> error option \<Rightarrow> BreachModel \<times> error option" where
  "store_BreachModel (JObject ms) b saved = fold store_breach_member ms (b, saved)"
| "store_BreachModel JNull b saved = (b, saved)"
| "store_BreachModel _ b saved = (b, saveError saved (UnmarshalTypeError ''BreachModel''))"

datatype paste_field = F_Source | F_Id | F_PasteTitle | F_Date | F_EmailCount

text \<open>The \<^verbatim>\<open>json\<close> tags of \<^verbatim>\<open>PasteModel\<close>, lines 38 to 42.\<close>

definition paste_fields :: "(string \<times> paste_field) list" where
  "paste_fields =
     [(''Source'', F_Source), (''Id'', F_Id), (''Title'', F_PasteTitle), (''Date'', F_Date),
      (''EmailCount'', F_EmailCount)]"

fun store_paste_field ::
  "paste_field \<Rightarrow> json \<Rightarrow> PasteModel \<Rightarrow> error option \<Rightarrow> PasteModel \<times> error option" where
  "store_paste_field F_Source v p saved =
     (case store_string v (Source p) saved of (x, e) \<Rightarrow> (p\<lparr>Source := x\<rparr>, e))"
| "store_paste_field F_Id v p saved =
     (case store_string v (ID p) saved of (x, e) \<Rightarrow> (p\<lparr>ID := x\<rparr>, e))"
| "store_paste_field F_PasteTitle v p saved =
     (case store_string v (PasteTitle p) saved of (x, e) \<Rightarrow> (p\<lparr>PasteTitle := x\<rparr>, e))"
| "store_paste_field F_Date v p saved =
     (case store_string v (Date p) saved of (x, e) \<Rightarrow> (p\<lparr>Date := x\<rparr>, e))"
| "store_paste_field F_EmailCount v p saved =
     (case store_int v (EmailCount p) saved of (x, e) \<Rightarrow> (p\<lparr>EmailCount := x\<rparr>, e))"

definition store_paste_member ::
  "string \<times> json \<Rightarrow> PasteModel \<times> error option \<Rightarrow> PasteModel \<times> error option" where
  "store_paste_member m st =
     (case find_field paste_fields (fst m) of
        None \<Rightarrow> st
      | Some f \<Rightarrow> store_paste_field f (snd m) (fst st) (snd st))"

fun store_PasteModel ::
  "json \<Rightarrow> PasteModel \<Rightarrow> error option \<Rightarrow> PasteModel \<times> error option" where
  "store_PasteModel (JObject ms) p saved = fold store_paste_member ms (p, saved)"
| "store_PasteModel JNull p saved = (p, saved)"
| "store_PasteModel _ p saved = (p, saveError saved (UnmarshalTypeError ''PasteModel''))"

text \<open>
  A pointer to a struct, the target \<^verbatim>\<open>&breach\<close> of line 114: \<^verbatim>\<open>null\<close> sets the
  pointer to nil, any other value is stored into the struct it points to (a new one when
  the pointer is nil).
\<close>

fun store_BreachModel_ptr ::
  "json \<Rightarrow> BreachModel option \<Rightarrow> error option \<Rightarrow> BreachModel option \<times> error option" where
  "store_BreachModel_ptr JNull ptr saved = (None, saved)"
| "store_BreachModel_ptr v ptr saved =
     (case store_BreachModel v (case ptr of None \<Rightarrow> zero_BreachModel | Some b \<Rightarrow> b) saved of
        (b, saved1) \<Rightarrow> (Some b, saved1))"

text \<open>
  \<^verbatim>\<open>json.Unmarshal(data, &v)\<close> checks the syntax of the whole text before it stores
  anything, and returns the saved error, if any, after storing.
\<close>

definition Unmarshal ::
  "env \<Rightarrow> (json \<Rightarrow> 'a \<Rightarrow> error option \<Rightarrow> 'a \<times> error option) \<Rightarrow> string \<Rightarrow> 'a
     \<Rightarrow> 'a \<times> error option" where
  "Unmarshal E store data v =
     (case parse E data of
        None \<Rightarrow> (v, Some SyntaxError)
      | Some j \<Rightarrow> store j v None)"

subsection \<open>The four operations\<close>

text \<open>
  Each operation returns its outcome and the events of the call. The deferred
  \<^verbatim>\<open>res.Body.Close()\<close> is registered after the body was read without error (lines 60,
  85, 112 and 135), so it runs on the exits that come after it, a panic included, and on no
  earlier one.
\<close>

definition BreachedAccount ::
  "env \<Rightarrow> string \<Rightarrow> string \<Rightarrow> bool \<Rightarrow> bool
     \<Rightarrow> (BreachModel slice \<times> error option) outcome \<times> event list" where
  "BreachedAccount E account domainFilter trunc unverified =
     (case callService E ''breachedaccount'' account domainFilter trunc unverified of
        (Panicked, evs) \<Rightarrow> (Panicked, evs)
      | (Returned (res, err), evs) \<Rightarrow>
          (case err of
             Some e \<Rightarrow> (Returned (NilSlice, Some e), evs)
           | None \<Rightarrow>
               (case res of
                  None \<Rightarrow> (Panicked, evs)
                | Some r \<Rightarrow>
                    if StatusCode r = StatusNotFound then (Returned (NilSlice, None), evs)
                    else
                      (case ReadAll (Body r) of
                         (body, Some e) \<Rightarrow> (Returned (NilSlice, Some e), evs @ [ReadBody])
                       | (body, None) \<Rightarrow>
                           (case Unmarshal E (store_slice store_BreachModel zero_BreachModel)
                                   body (Slice []) of
                              (breaches, Some e) \<Rightarrow>
                                (Returned (NilSlice, Some e), evs @ [ReadBody, CloseBody])
                            | (breaches, None) \<Rightarrow>
                                (Returned (breaches, None), evs @ [ReadBody, CloseBody]))))))"

text \<open>Line 73: the call passes the empty string where the domain filter goes.\<close>

definition Breaches ::
  "env \<Rightarrow> string \<Rightarrow> (BreachModel slice \<times> error option) outcome \<times> event list" where
  "Breaches E domainFilter =
     (case callService E ''breaches'' [] [] False False of
        (Panicked, evs) \<Rightarrow> (Panicked, evs)
      | (Returned (res, err), evs) \<Rightarrow>
          (case err of
             Some e \<Rightarrow> (Returned (NilSlice, Some e), evs)
           | None \<Rightarrow>
               (case res of
                  None \<Rightarrow> (Panicked, evs)
                | Some r \<Rightarrow>
                    if StatusCode r = StatusNotFound then (Returned (NilSlice, None), evs)
                    else
                      (case ReadAll (Body r) of
                         (body, Some e) \<Rightarrow> (Returned (NilSlice, Some e), evs @ [ReadBody])
                       | (body, None) \<Rightarrow>
                           (case Unmarshal E (store_slice store_BreachModel zero_BreachModel)
                                   body (Slice []) of
                              (breaches, Some e) \<Rightarrow>
                                (Returned (NilSlice, Some e), evs @ [ReadBody, CloseBody])
                            | (breaches, None) \<Rightarrow>
                                (Returned (breaches, None), evs @ [ReadBody, CloseBody]))))))"

text \<open>
  \<^verbatim>\<open>Breach\<close> keeps a pointer \<^verbatim>\<open>breach\<close> and returns \<^verbatim>\<open>*breach\<close>: where the
  decoder has set the pointer to nil, that is a nil pointer dereference.
\<close>

definition deref :: "BreachModel option \<Rightarrow> error option \<Rightarrow> (BreachModel \<times> error option) outcome" where
  "deref ptr err = (case ptr of None \<Rightarrow> Panicked | Some b \<Rightarrow> Returned (b, err))"

definition Breach ::
  "env \<Rightarrow> string \<Rightarrow> (BreachModel \<times> error option) outcome \<times> event list" where
  "Breach E name =
     (let breach = Some zero_BreachModel in
      case callService E ''breach'' name [] False False of
        (Panicked, evs) \<Rightarrow> (Panicked, evs)
      | (Returned (res, err), evs) \<Rightarrow>
          (case err of
             Some e \<Rightarrow> (deref breach (Some e), evs)
           | None \<Rightarrow>
               (case res of
                  None \<Rightarrow> (Panicked, evs)
                | Some r \<Rightarrow>
                    if StatusCode r = StatusNotFound then (deref breach None, evs)
                    else
                      (case ReadAll (Body r) of
                         (body, Some e) \<Rightarrow> (deref breach (Some e), evs @ [ReadBody])
                       | (body, None) \<Rightarrow>
                           (case Unmarshal E store_BreachModel_ptr body breach of
                              (breach1, Some e) \<Rightarrow>
                                (deref breach1 (Some e), evs @ [ReadBody, CloseBody])
                            | (breach1, None) \<Rightarrow>
                                (deref breach1 None, evs @ [ReadBody, CloseBody]))))))"

definition PasteAccount ::
  "env \<Rightarrow> string \<Rightarrow> (PasteModel slice \<times> error option) outcome \<times> event list" where
  "PasteAccount E email =
     (case callService E ''pasteaccount'' email [] False False of
        (Panicked, evs) \<Rightarrow> (Panicked, evs)
      | (Returned (res, err), evs) \<Rightarrow>
          (case err of
             Some e \<Rightarrow> (Returned (NilSlice, Some e), evs)
           | None \<Rightarrow>
               (case res of
                  None \<Rightarrow> (Panicked, evs)
                | Some r \<Rightarrow>
                    if StatusCode r = StatusNotFound then (Returned (NilSlice, None), evs)
                    else
                      (case ReadAll (Body r) of
                         (body, Some e) \<Rightarrow> (Returned (NilSlice, Some e), evs @ [ReadBody])
                       | (body, None) \<Rightarrow>
                           (case Unmarshal E (store_slice store_PasteModel zero_PasteModel)
                                   body (Slice []) of
                              (pastes, Some e) \<Rightarrow>
                                (Returned (NilSlice, Some e), evs @ [ReadBody, CloseBody])
                            | (pastes, None) \<Rightarrow>
                                (Returned (pastes, None), evs @ [ReadBody, CloseBody]))))))"

text \<open>What a caller and the outside world see of a call.\<close>

definition result :: "'a outcome \<times> event list \<Rightarrow> 'a outcome" where
  "result call = fst call"

definition events :: "'a outcome \<times> event list \<Rightarrow> event list" where
  "events call = snd call"

fun sent :: "event list \<Rightarrow> Request list" where
  "sent [] = []"
| "sent (Send req # evs) = req # sent evs"
| "sent (_ # evs) = sent evs"

definition queries :: "'a outcome \<times> event list \<Rightarrow> string list" where
  "queries call = map (\<lambda>req. RawQuery (Url req)) (sent (events call))"

definition body_closed :: "'a outcome \<times> event list \<Rightarrow> bool" where
  "body_closed call = (CloseBody \<in> set (events call))"

subsection \<open>Well-formed objects and what they say, field for field\<close>

text \<open>
  A breach object, as the API documents it: a JSON object whose members are named as the
  fields of \<^verbatim>\<open>BreachModel\<close> are tagged, each name at most once, each value of the JSON
  type of its field: a string, an integer (within 64 bits), a boolean, or an array of strings
  for \<^verbatim>\<open>DataClasses\<close>.
\<close>

datatype kind = KString | KInt | KBool | KStrings

fun is_JString :: "json \<Rightarrow> bool" where
  "is_JString (JString s) = True"
| "is_JString _ = False"

fun fits :: "kind \<Rightarrow> json \<Rightarrow> bool" where
  "fits KString v = is_JString v"
| "fits KInt v = (case v of JInt i \<Rightarrow> - (2 ^ 63) \<le> i \<and> i < 2 ^ 63 | _ \<Rightarrow> False)"
| "fits KBool v = (case v of JBool b \<Rightarrow> True | _ \<Rightarrow> False)"
| "fits KStrings v = (case v of JArray xs \<Rightarrow> list_all is_JString xs | _ \<Rightarrow> False)"

fun breach_field_kind :: "breach_field \<Rightarrow> kind" where
  "breach_field_kind F_PwnCount = KInt"
| "breach_field_kind F_DataClasses = KStrings"
| "breach_field_kind F_IsVerified = KBool"
| "breach_field_kind F_IsFabricated = KBool"
| "breach_field_kind F_IsSensitive = KBool"
| "breach_field_kind F_IsRetired = KBool"
| "breach_field_kind F_IsSpamList = KBool"
| "breach_field_kind _ = KString"

definition breach_member :: "string \<times> json \<Rightarrow> bool" where
  "breach_member m =
     (case map_of breach_fields (fst m) of
        None \<Rightarrow> False
      | Some f \<Rightarrow> fits (breach_field_kind f) (snd m))"

definition breach_object :: "(string \<times> json) list \<Rightarrow> bool" where
  "breach_object ms = (distinct (map fst ms) \<and> list_all breach_member ms)"

fun paste_field_kind :: "paste_field \<Rightarrow> kind" where
  "paste_field_kind F_EmailCount = KInt"
| "paste_field_kind _ = KString"

definition paste_member :: "string \<times> json \<Rightarrow> bool" where
  "paste_member m =
     (case map_of paste_fields (fst m) of
        None \<Rightarrow> False
      | Some f \<Rightarrow> fits (paste_field_kind f) (snd m))"

definition paste_object :: "(string \<times> json) list \<Rightarrow> bool" where
  "paste_object ms = (distinct (map fst ms) \<and> list_all paste_member ms)"

text \<open>
  The value of a member, read from the object by its name, or a default where the object has
  no such member.
\<close>

definition string_member :: "(string \<times> json) list \<Rightarrow> string \<Rightarrow> string \<Rightarrow> string" where
  "string_member ms k d = (case map_of ms k of Some (JString s) \<Rightarrow> s | _ \<Rightarrow> d)"

definition int_member :: "(string \<times> json) list \<Rightarrow> string \<Rightarrow> 64 word \<Rightarrow> 64 word" where
  "int_member ms k d = (case map_of ms k of Some (JInt i) \<Rightarrow> word_of_int i | _ \<Rightarrow> d)"

definition bool_member :: "(string \<times> json) list \<Rightarrow> string \<Rightarrow> bool \<Rightarrow> bool" where
  "bool_member ms k d = (case map_of ms k of Some (JBool b) \<Rightarrow> b | _ \<Rightarrow> d)"

fun the_string :: "json \<Rightarrow> string" where
  "the_string (JString s) = s"
| "the_string _ = []"

definition strings_member ::
  "(string \<times> json) list \<Rightarrow> string \<Rightarrow> string slice \<Rightarrow> string slice" where
  "strings_member ms k d =
     (case map_of ms k of Some (JArray xs) \<Rightarrow> Slice (map the_string xs) | _ \<Rightarrow> d)"

text \<open>
  The record that an object describes over a given record: every field is the value of the
  member of its name, and the given record's where there is none. Over the zero value, that
  is the record equal to the object field for field.
\<close>

definition breach_with :: "(string \<times> json) list \<Rightarrow> BreachModel \<Rightarrow> BreachModel" where
  "breach_with ms b =
     \<lparr>Name = string_member ms ''Name'' (Name b),
      Title = string_member ms ''Title'' (Title b),
      Domain' = string_member ms ''Domain'' (Domain' b),
      BreachDate = string_member ms ''BreachDate'' (BreachDate b),
      AddedDate = string_member ms ''AddedDate'' (AddedDate b),
      ModifiedDate = string_member ms ''ModifiedDate'' (ModifiedDate b),
      PwnCount = int_member ms ''PwnCount'' (PwnCount b),
      Description = string_member ms ''Description'' (Description b),
      DataClasses = strings_member ms ''DataClasses'' (DataClasses b),
      IsVerified = bool_member ms ''IsVerified'' (IsVerified b),
      IsFabricated = bool_member ms ''IsFabricated'' (IsFabricated b),
      IsSensitive = bool_member ms ''IsSensitive'' (IsSensitive b),
      IsRetired = bool_member ms ''IsRetired'' (IsRetired b),
      IsSpamList = bool_member ms ''IsSpamList'' (IsSpamList b),
      LogoPath = string_member ms ''LogoPath'' (LogoPath b)\<rparr>"

definition breach_of_object :: "(string \<times> json) list \<Rightarrow> BreachModel" where
  "breach_of_object ms = breach_with ms zero_BreachModel"

definition paste_with :: "(string \<times> json) list \<Rightarrow> PasteModel \<Rightarrow> PasteModel" where
  "paste_with ms p =
     \<lparr>Source = string_member ms ''Source'' (Source p),
      ID = string_member ms ''Id'' (ID p),
      PasteTitle = string_member ms ''Title'' (PasteTitle p),
      Date = string_member ms ''Date'' (Date p),
      EmailCount = int_member ms ''EmailCount'' (EmailCount p)\<rparr>"

definition paste_of_object :: "(string \<times> json) list \<Rightarrow> PasteModel" where
  "paste_of_object ms = paste_with ms zero_PasteModel"

subsection \<open>Concrete environments\<close>

text \<open>
  An environment whose transport gives one answer to every request and whose JSON texts are
  those of a table.
\<close>

definition stub_env :: "Response option \<times> error option \<Rightarrow> (string \<times> json) list \<Rightarrow> env" where
  "stub_env answer texts = \<lparr>Getenv = (\<lambda>_. []), Do = (\<lambda>_. answer), parse = map_of texts\<rparr>"

definition response :: "int \<Rightarrow> string \<Rightarrow> Response" where
  "response status body = \<lparr>StatusCode = status, Body = (body, None)\<rparr>"

text \<open>Two breach objects, and a response body that holds both.\<close>

definition adobe_object :: "(string \<times> json) list" where
  "adobe_object =
     [(''Name'', JString ''Adobe''), (''Title'', JString ''Adobe''),
      (''PwnCount'', JInt 152445165)]"

definition linkedin_object :: "(string \<times> json) list" where
  "linkedin_object =
     [(''DataClasses'', JArray [JString ''Email addresses'', JString ''Passwords'']),
      (''IsVerified'', JBool True), (''Name'', JString ''LinkedIn'')]"

definition two_breaches_env :: env where
  "two_breaches_env =
     stub_env (Some (response 200 ''two breaches''), None)
       [(''two breaches'', JArray [JObject adobe_object, JObject linkedin_object])]"

subsection \<open>Two neighbouring bytes of a string\<close>

text \<open>\<open>adjacent a b q\<close>: somewhere in \<open>q\<close> the byte \<open>a\<close> is followed at once by \<open>b\<close>.\<close>

fun adjacent :: "'a \<Rightarrow> 'a \<Rightarrow> 'a list \<Rightarrow> bool" where
  "adjacent a b (x # y # r) = ((x = a \<and> y = b) \<or> adjacent a b (y # r))"
| "adjacent a b _ = False"

section \<open>Properties\<close>

subsection \<open>The shared request routine\<close>

lemmas status_defs =
  StatusBadRequest_def StatusUnauthorized_def StatusNotFound_def StatusTooManyRequests_def

lemma callService_response:
  "Do E (service_request E service account domainFilter trunc unverified) = (Some r, err) \<Longrightarrow>
   callService E service account domainFilter trunc unverified =
     ((if StatusCode r = 400 then Returned (None, Some InvalidFormat)
       else if StatusCode r = 429 then Returned (None, Some RateLimited)
       else if StatusCode r = 401 then Returned (None, Some Unauthorized)
       else if err \<noteq> None then Returned (None, err)
       else Returned (Some r, None)),
      [Send (service_request E service account domainFilter trunc unverified)])"
  by (simp add: callService_def Let_def status_defs)

lemma callService_nil:
  "Do E (service_request E service account domainFilter trunc unverified) = (None, err) \<Longrightarrow>
   callService E service account domainFilter trunc unverified =
     (Panicked, [Send (service_request E service account domainFilter trunc unverified)])"
  by (simp add: callService_def Let_def)

subsection \<open>The query string\<close>

lemma sublist_pair: "sublist [a, b] q = adjacent a b q"
  by (induction a b q rule: adjacent.induct) (auto simp: sublist_Cons_right)

lemma adjacent_in_set: "adjacent a b q \<Longrightarrow> b \<in> set q"
  by (induction a b q rule: adjacent.induct) auto

lemma adjacent_Cons:
  "adjacent a b (x # q) = ((x = a \<and> q \<noteq> [] \<and> hd q = b) \<or> adjacent a b q)"
  by (cases q) auto

lemma adjacent_append:
  "adjacent a b (xs @ ys) =
     (adjacent a b xs \<or> adjacent a b ys
        \<or> (xs \<noteq> [] \<and> ys \<noteq> [] \<and> last xs = a \<and> hd ys = b))"
proof (induction xs)
  case Nil
  show ?case by simp
next
  case (Cons x xs)
  note IH = Cons.IH
  show ?case
  proof (cases xs)
    case Nil
    then show ?thesis by (auto simp: adjacent_Cons)
  next
    case (Cons z zs)
    with IH show ?thesis by (auto simp: adjacent_Cons)
  qed
qed

lemma upperhex_nth: "k < 16 \<Longrightarrow> upperhex ! k \<in> set upperhex"
  by (rule nth_mem) (simp add: upperhex_def)

lemma escape_byte_chars:
  "x \<in> set (escape_byte c) \<Longrightarrow> x = CHR ''+'' \<or> x = CHR ''%'' \<or> x \<in> set upperhex \<or> (x = c \<and> \<not> shouldEscape c)"
proof -
  have d: "(of_char c :: nat) div 16 < 16" using nat_of_char_less_256 [of c] by arith
  have m: "(of_char c :: nat) mod 16 < 16" by simp
  assume "x \<in> set (escape_byte c)"
  then show ?thesis using upperhex_nth [OF d] upperhex_nth [OF m]
    by (auto simp: escape_byte_def split: if_splits)
qed

lemma QueryEscape_no_equals: "CHR ''='' \<notin> set (QueryEscape s)"
proof
  assume "CHR ''='' \<in> set (QueryEscape s)"
  then obtain c where "CHR ''='' \<in> set (escape_byte c)" by (auto simp: QueryEscape_def)
  from escape_byte_chars [OF this] show False
    by (auto simp: upperhex_def shouldEscape_def)
qed

lemma QE_false: "QueryEscape ''false'' = ''false''"
  by (simp add: QueryEscape_def escape_byte_def shouldEscape_def)
lemma QE_true: "QueryEscape ''true'' = ''true''"
  by (simp add: QueryEscape_def escape_byte_def shouldEscape_def)
lemma QE_domain: "QueryEscape ''domain'' = ''domain''"
  by (simp add: QueryEscape_def escape_byte_def shouldEscape_def)
lemma QE_trunc: "QueryEscape ''truncateResponse'' = ''truncateResponse''"
  by (simp add: QueryEscape_def escape_byte_def shouldEscape_def)
lemma QE_unv: "QueryEscape ''includeUnverified'' = ''includeUnverified''"
  by (simp add: QueryEscape_def escape_byte_def shouldEscape_def)

lemmas QE = QE_false QE_true QE_domain QE_trunc QE_unv
lemmas enc_defs =
  Values_Encode_def parameters_def Values_Add_def write_key_def write_pair_def Values_Get_def

lemma encode_parameters:
  "Values_Encode (parameters f t u) =
     (if f \<noteq> [] then ''domain='' @ QueryEscape f else [])
     @ (if f \<noteq> [] \<and> u then ''&'' else [])
     @ (if u then ''includeUnverified=true'' else [])
     @ (if (f \<noteq> [] \<or> u) \<and> \<not> t then ''&'' else [])
     @ (if \<not> t then ''truncateResponse=false'' else [])"
  by (simp add: enc_defs QE Let_def)


lemma no_adjacent_equals [simp]: "\<not> adjacent a (CHR ''='') (QueryEscape s)"
  using adjacent_in_set [of a "CHR ''=''" "QueryEscape s"] QueryEscape_no_equals [of s] by blast

lemma hd_QueryEscape [simp]: "QueryEscape s \<noteq> [] \<Longrightarrow> hd (QueryEscape s) \<noteq> CHR ''=''"
  using hd_in_set [of "QueryEscape s"] QueryEscape_no_equals [of s] by metis

lemma sublist_shorter: "sublist xs ys \<Longrightarrow> sublist ys q \<Longrightarrow> sublist xs q"
  by (rule sublist_order.order_trans)

lemma needle_trunc: "sublist ''truncateResponse='' q \<Longrightarrow> adjacent (CHR ''e'') (CHR ''='') q"
proof -
  assume a: "sublist ''truncateResponse='' q"
  have "sublist ''e='' ''truncateResponse=''" by (simp add: sublist_pair)
  from sublist_shorter [OF this a] show ?thesis by (simp add: sublist_pair)
qed

lemma needle_unverified: "sublist ''includeUnverified='' q \<Longrightarrow> adjacent (CHR ''d'') (CHR ''='') q"
proof -
  assume a: "sublist ''includeUnverified='' q"
  have "sublist ''d='' ''includeUnverified=''" by (simp add: sublist_pair)
  from sublist_shorter [OF this a] show ?thesis by (simp add: sublist_pair)
qed

lemma sublist_longer: "sublist (xs @ ys) q \<Longrightarrow> sublist xs q"
  by (auto simp: sublist_def)

lemma sublist_mid: "q = ps @ xs @ ss \<Longrightarrow> sublist xs q"
  by (auto simp: sublist_def)

lemma query_trunc_pos:
  "\<not> t \<Longrightarrow> sublist ''truncateResponse=false'' (Values_Encode (parameters f t u))"
  by (rule sublist_mid [where ss = "[]" and ps = "(if f \<noteq> [] then ''domain='' @ QueryEscape f else [])
     @ (if f \<noteq> [] \<and> u then ''&'' else [])
     @ (if u then ''includeUnverified=true'' else [])
     @ (if (f \<noteq> [] \<or> u) then ''&'' else [])"]) (simp add: encode_parameters)

lemma query_trunc_neg:
  "t \<Longrightarrow> \<not> adjacent (CHR ''e'') (CHR ''='') (Values_Encode (parameters f t u))"
  by (cases "f = []"; cases u) (simp_all add: encode_parameters adjacent_append adjacent_Cons)

lemma query_unverified_pos:
  "u \<Longrightarrow> sublist ''includeUnverified=true'' (Values_Encode (parameters f t u))"
  by (rule sublist_mid [where ps = "(if f \<noteq> [] then ''domain='' @ QueryEscape f else [])
     @ (if f \<noteq> [] then ''&'' else [])" and ss = "(if \<not> t then ''&'' else [])
     @ (if \<not> t then ''truncateResponse=false'' else [])"]) (simp add: encode_parameters)

lemma query_unverified_neg:
  "\<not> u \<Longrightarrow> \<not> adjacent (CHR ''d'') (CHR ''='') (Values_Encode (parameters f t u))"
  by (cases "f = []"; cases t) (simp_all add: encode_parameters adjacent_append adjacent_Cons)

lemma query_domain_pos:
  "f \<noteq> [] \<Longrightarrow> sublist (''domain='' @ QueryEscape f) (Values_Encode (parameters f t u))"
  by (rule sublist_mid [where ps = "[]" and ss = "(if u then ''&'' else [])
     @ (if u then ''includeUnverified=true'' else [])
     @ (if \<not> t then ''&'' else [])
     @ (if \<not> t then ''truncateResponse=false'' else [])"]) (simp add: encode_parameters)

lemma query_trunc:
  "sublist ''truncateResponse=false'' (Values_Encode (parameters f t u)) = (\<not> t)"
  "sublist ''truncateResponse='' (Values_Encode (parameters f t u)) = (\<not> t)"
proof -
  let ?q = "Values_Encode (parameters f t u)"
  have longer: "sublist ''truncateResponse='' ?q" if "sublist ''truncateResponse=false'' ?q"
    using sublist_longer [of "''truncateResponse=''" "''false''" ?q] that by simp
  have pos: "sublist ''truncateResponse=false'' ?q" if "\<not> t"
    using that by (rule query_trunc_pos)
  have neg: "\<not> sublist ''truncateResponse='' ?q" if t
    using query_trunc_neg [OF that, of f u] needle_trunc [of ?q] by (rule contrapos_nn)
  show "sublist ''truncateResponse=false'' ?q = (\<not> t)"
  proof (cases t)
    case True
    from neg [OF True] longer have "\<not> sublist ''truncateResponse=false'' ?q" by (rule contrapos_nn)
    with True show ?thesis by simp
  next
    case False
    from pos [OF False] False show ?thesis by simp
  qed
  show "sublist ''truncateResponse='' ?q = (\<not> t)"
  proof (cases t)
    case True
    from neg [OF True] True show ?thesis by simp
  next
    case False
    from longer [OF pos [OF False]] False show ?thesis by simp
  qed
qed

lemma query_unverified:
  "sublist ''includeUnverified=true'' (Values_Encode (parameters f t u)) = u"
  "sublist ''includeUnverified='' (Values_Encode (parameters f t u)) = u"
proof -
  let ?q = "Values_Encode (parameters f t u)"
  have longer: "sublist ''includeUnverified='' ?q" if "sublist ''includeUnverified=true'' ?q"
    using sublist_longer [of "''includeUnverified=''" "''true''" ?q] that by simp
  have pos: "sublist ''includeUnverified=true'' ?q" if u
    using that by (rule query_unverified_pos)
  have neg: "\<not> sublist ''includeUnverified='' ?q" if "\<not> u"
    using query_unverified_neg [OF that, of f t] needle_unverified [of ?q] by (rule contrapos_nn)
  show "sublist ''includeUnverified=true'' ?q = u"
  proof (cases u)
    case True
    from pos [OF True] True show ?thesis by simp
  next
    case False
    from neg [OF False] longer have "\<not> sublist ''includeUnverified=true'' ?q" by (rule contrapos_nn)
    with False show ?thesis by simp
  qed
  show "sublist ''includeUnverified='' ?q = u"
  proof (cases u)
    case True
    from longer [OF pos [OF True]] True show ?thesis by simp
  next
    case False
    from neg [OF False] False show ?thesis by simp
  qed
qed

subsection \<open>Decoding well-formed objects\<close>

lemma store_array_strings:
  "list_all is_JString xs \<Longrightarrow>
   store_array store_string [] xs old saved = (map the_string xs, saved)"
proof (induction xs arbitrary: old)
  case Nil
  show ?case by simp
next
  case (Cons x xs)
  from Cons.prems obtain s where x: "x = JString s" and rest: "list_all is_JString xs"
    by (cases x) auto
  show ?case using Cons.IH [OF rest] by (simp add: x)
qed

lemma member_simps:
  "map_of ms k = None \<Longrightarrow> string_member ms k d = d"
  "map_of ms k = None \<Longrightarrow> int_member ms k di = di"
  "map_of ms k = None \<Longrightarrow> bool_member ms k db = db"
  "map_of ms k = None \<Longrightarrow> strings_member ms k ds = ds"
  "string_member ((k, JString s) # ms) k d = s"
  "int_member ((k, JInt i) # ms) k di = word_of_int i"
  "bool_member ((k, JBool c) # ms) k db = c"
  "strings_member ((k, JArray xs) # ms) k ds = Slice (map the_string xs)"
  "k' \<noteq> k \<Longrightarrow> string_member ((k', v) # ms) k d = string_member ms k d"
  "k' \<noteq> k \<Longrightarrow> int_member ((k', v) # ms) k di = int_member ms k di"
  "k' \<noteq> k \<Longrightarrow> bool_member ((k', v) # ms) k db = bool_member ms k db"
  "k' \<noteq> k \<Longrightarrow> strings_member ((k', v) # ms) k ds = strings_member ms k ds"
  by (simp_all add: string_member_def int_member_def bool_member_def strings_member_def)

lemma find_field_exact: "map_of fs k = Some f \<Longrightarrow> find_field fs k = Some f"
  by (simp add: find_field_def)

lemma find_F_Name: "find_field breach_fields ''Name'' = Some F_Name"
  by (rule find_field_exact) (simp add: breach_fields_def)

lemma breach_member_Name:
  assumes "fits KString v" and "map_of ms ''Name'' = None"
  shows "\<exists>x. store_breach_member (''Name'', v) (r, None) = (x, None)
           \<and> breach_with ms x = breach_with ((''Name'', v) # ms) r"
proof -
  from assms(1) obtain s where v: "v = JString s" by (cases v) simp_all
  have "store_breach_member (''Name'', v) (r, None) = (r\<lparr>Name := s\<rparr>, None)"
    by (simp add: store_breach_member_def find_F_Name v)
  moreover have "breach_with ms (r\<lparr>Name := s\<rparr>) = breach_with ((''Name'', v) # ms) r"
    using assms(2) by (simp add: breach_with_def member_simps v)
  ultimately show ?thesis by simp
qed

lemma find_F_Title: "find_field breach_fields ''Title'' = Some F_Title"
  by (rule find_field_exact) (simp add: breach_fields_def)

lemma breach_member_Title:
  assumes "fits KString v" and "map_of ms ''Title'' = None"
  shows "\<exists>x. store_breach_member (''Title'', v) (r, None) = (x, None)
           \<and> breach_with ms x = breach_with ((''Title'', v) # ms) r"
proof -
  from assms(1) obtain s where v: "v = JString s" by (cases v) simp_all
  have "store_breach_member (''Title'', v) (r, None) = (r\<lparr>Title := s\<rparr>, None)"
    by (simp add: store_breach_member_def find_F_Title v)
  moreover have "breach_with ms (r\<lparr>Title := s\<rparr>) = breach_with ((''Title'', v) # ms) r"
    using assms(2) by (simp add: breach_with_def member_simps v)
  ultimately show ?thesis by simp
qed

lemma find_F_Domain: "find_field breach_fields ''Domain'' = Some F_Domain"
  by (rule find_field_exact) (simp add: breach_fields_def)

lemma breach_member_Domain:
  assumes "fits KString v" and "map_of ms ''Domain'' = None"
  shows "\<exists>x. store_breach_member (''Domain'', v) (r, None) = (x, None)
           \<and> breach_with ms x = breach_with ((''Domain'', v) # ms) r"
proof -
  from assms(1) obtain s where v: "v = JString s" by (cases v) simp_all
  have "store_breach_member (''Domain'', v) (r, None) = (r\<lparr>Domain' := s\<rparr>, None)"
    by (simp add: store_breach_member_def find_F_Domain v)
  moreover have "breach_with ms (r\<lparr>Domain' := s\<rparr>) = breach_with ((''Domain'', v) # ms) r"
    using assms(2) by (simp add: breach_with_def member_simps v)
  ultimately show ?thesis by simp
qed

lemma find_F_BreachDate: "find_field breach_fields ''BreachDate'' = Some F_BreachDate"
  by (rule find_field_exact) (simp add: breach_fields_def)

lemma breach_member_BreachDate:
  assumes "fits KString v" and "map_of ms ''BreachDate'' = None"
  shows "\<exists>x. store_breach_member (''BreachDate'', v) (r, None) = (x, None)
           \<and> breach_with ms x = breach_with ((''BreachDate'', v) # ms) r"
proof -
  from assms(1) obtain s where v: "v = JString s" by (cases v) simp_all
  have "store_breach_member (''BreachDate'', v) (r, None) = (r\<lparr>BreachDate := s\<rparr>, None)"
    by (simp add: store_breach_member_def find_F_BreachDate v)
  moreover have "breach_with ms (r\<lparr>BreachDate := s\<rparr>) = breach_with ((''BreachDate'', v) # ms) r"
    using assms(2) by (simp add: breach_with_def member_simps v)
  ultimately show ?thesis by simp
qed

lemma find_F_AddedDate: "find_field breach_fields ''AddedDate'' = Some F_AddedDate"
  by (rule find_field_exact) (simp add: breach_fields_def)

lemma breach_member_AddedDate:
  assumes "fits KString v" and "map_of ms ''AddedDate'' = None"
  shows "\<exists>x. store_breach_member (''AddedDate'', v) (r, None) = (x, None)
           \<and> breach_with ms x = breach_with ((''AddedDate'', v) # ms) r"
proof -
  from assms(1) obtain s where v: "v = JString s" by (cases v) simp_all
  have "store_breach_member (''AddedDate'', v) (r, None) = (r\<lparr>AddedDate := s\<rparr>, None)"
    by (simp add: store_breach_member_def find_F_AddedDate v)
  moreover have "breach_with ms (r\<lparr>AddedDate := s\<rparr>) = breach_with ((''AddedDate'', v) # ms) r"
    using assms(2) by (simp add: breach_with_def member_simps v)
  ultimately show ?thesis by simp
qed

lemma find_F_ModifiedDate: "find_field breach_fields ''ModifiedDate'' = Some F_ModifiedDate"
  by (rule find_field_exact) (simp add: breach_fields_def)

lemma breach_member_ModifiedDate:
  assumes "fits KString v" and "map_of ms ''ModifiedDate'' = None"
  shows "\<exists>x. store_breach_member (''ModifiedDate'', v) (r, None) = (x, None)
           \<and> breach_with ms x = breach_with ((''ModifiedDate'', v) # ms) r"
proof -
  from assms(1) obtain s where v: "v = JString s" by (cases v) simp_all
  have "store_breach_member (''ModifiedDate'', v) (r, None) = (r\<lparr>ModifiedDate := s\<rparr>, None)"
    by (simp add: store_breach_member_def find_F_ModifiedDate v)
  moreover have "breach_with ms (r\<lparr>ModifiedDate := s\<rparr>) = breach_with ((''ModifiedDate'', v) # ms) r"
    using assms(2) by (simp add: breach_with_def member_simps v)
  ultimately show ?thesis by simp
qed

lemma find_F_PwnCount: "find_field breach_fields ''PwnCount'' = Some F_PwnCount"
  by (rule find_field_exact) (simp add: breach_fields_def)

lemma breach_member_PwnCount:
  assumes "fits KInt v" and "map_of ms ''PwnCount'' = None"
  shows "\<exists>x. store_breach_member (''PwnCount'', v) (r, None) = (x, None)
           \<and> breach_with ms x = breach_with ((''PwnCount'', v) # ms) r"
proof -
  from assms(1) obtain i where v: "v = JInt i" and i: "- (2 ^ 63) \<le> i" "i < 2 ^ 63"
    by (cases v) simp_all
  have "store_breach_member (''PwnCount'', v) (r, None) = (r\<lparr>PwnCount := word_of_int i\<rparr>, None)"
    using i by (simp add: store_breach_member_def find_F_PwnCount v)
  moreover have "breach_with ms (r\<lparr>PwnCount := word_of_int i\<rparr>) = breach_with ((''PwnCount'', v) # ms) r"
    using assms(2) by (simp add: breach_with_def member_simps v)
  ultimately show ?thesis by simp
qed

lemma find_F_Description: "find_field breach_fields ''Description'' = Some F_Description"
  by (rule find_field_exact) (simp add: breach_fields_def)

lemma breach_member_Description:
  assumes "fits KString v" and "map_of ms ''Description'' = None"
  shows "\<exists>x. store_breach_member (''Description'', v) (r, None) = (x, None)
           \<and> breach_with ms x = breach_with ((''Description'', v) # ms) r"
proof -
  from assms(1) obtain s where v: "v = JString s" by (cases v) simp_all
  have "store_breach_member (''Description'', v) (r, None) = (r\<lparr>Description := s\<rparr>, None)"
    by (simp add: store_breach_member_def find_F_Description v)
  moreover have "breach_with ms (r\<lparr>Description := s\<rparr>) = breach_with ((''Description'', v) # ms) r"
    using assms(2) by (simp add: breach_with_def member_simps v)
  ultimately show ?thesis by simp
qed

lemma find_F_DataClasses: "find_field breach_fields ''DataClasses'' = Some F_DataClasses"
  by (rule find_field_exact) (simp add: breach_fields_def)

lemma breach_member_DataClasses:
  assumes "fits KStrings v" and "map_of ms ''DataClasses'' = None"
  shows "\<exists>x. store_breach_member (''DataClasses'', v) (r, None) = (x, None)
           \<and> breach_with ms x = breach_with ((''DataClasses'', v) # ms) r"
proof -
  from assms(1) obtain xs where v: "v = JArray xs" and xs: "list_all is_JString xs"
    by (cases v) simp_all
  have "store_breach_member (''DataClasses'', v) (r, None) = (r\<lparr>DataClasses := Slice (map the_string xs)\<rparr>, None)"
    by (simp add: store_breach_member_def find_F_DataClasses v store_array_strings [OF xs])
  moreover have "breach_with ms (r\<lparr>DataClasses := Slice (map the_string xs)\<rparr>) = breach_with ((''DataClasses'', v) # ms) r"
    using assms(2) by (simp add: breach_with_def member_simps v)
  ultimately show ?thesis by simp
qed

lemma find_F_IsVerified: "find_field breach_fields ''IsVerified'' = Some F_IsVerified"
  by (rule find_field_exact) (simp add: breach_fields_def)

lemma breach_member_IsVerified:
  assumes "fits KBool v" and "map_of ms ''IsVerified'' = None"
  shows "\<exists>x. store_breach_member (''IsVerified'', v) (r, None) = (x, None)
           \<and> breach_with ms x = breach_with ((''IsVerified'', v) # ms) r"
proof -
  from assms(1) obtain c where v: "v = JBool c" by (cases v) simp_all
  have "store_breach_member (''IsVerified'', v) (r, None) = (r\<lparr>IsVerified := c\<rparr>, None)"
    by (simp add: store_breach_member_def find_F_IsVerified v)
  moreover have "breach_with ms (r\<lparr>IsVerified := c\<rparr>) = breach_with ((''IsVerified'', v) # ms) r"
    using assms(2) by (simp add: breach_with_def member_simps v)
  ultimately show ?thesis by simp
qed

lemma find_F_IsFabricated: "find_field breach_fields ''IsFabricated'' = Some F_IsFabricated"
  by (rule find_field_exact) (simp add: breach_fields_def)

lemma breach_member_IsFabricated:
  assumes "fits KBool v" and "map_of ms ''IsFabricated'' = None"
  shows "\<exists>x. store_breach_member (''IsFabricated'', v) (r, None) = (x, None)
           \<and> breach_with ms x = breach_with ((''IsFabricated'', v) # ms) r"
proof -
  from assms(1) obtain c where v: "v = JBool c" by (cases v) simp_all
  have "store_breach_member (''IsFabricated'', v) (r, None) = (r\<lparr>IsFabricated := c\<rparr>, None)"
    by (simp add: store_breach_member_def find_F_IsFabricated v)
  moreover have "breach_with ms (r\<lparr>IsFabricated := c\<rparr>) = breach_with ((''IsFabricated'', v) # ms) r"
    using assms(2) by (simp add: breach_with_def member_simps v)
  ultimately show ?thesis by simp
qed

lemma find_F_IsSensitive: "find_field breach_fields ''IsSensitive'' = Some F_IsSensitive"
  by (rule find_field_exact) (simp add: breach_fields_def)

lemma breach_member_IsSensitive:
  assumes "fits KBool v" and "map_of ms ''IsSensitive'' = None"
  shows "\<exists>x. store_breach_member (''IsSensitive'', v) (r, None) = (x, None)
           \<and> breach_with ms x = breach_with ((''IsSensitive'', v) # ms) r"
proof -
  from assms(1) obtain c where v: "v = JBool c" by (cases v) simp_all
  have "store_breach_member (''IsSensitive'', v) (r, None) = (r\<lparr>IsSensitive := c\<rparr>, None)"
    by (simp add: store_breach_member_def find_F_IsSensitive v)
  moreover have "breach_with ms (r\<lparr>IsSensitive := c\<rparr>) = breach_with ((''IsSensitive'', v) # ms) r"
    using assms(2) by (simp add: breach_with_def member_simps v)
  ultimately show ?thesis by simp
qed

lemma find_F_IsRetired: "find_field breach_fields ''IsRetired'' = Some F_IsRetired"
  by (rule find_field_exact) (simp add: breach_fields_def)

lemma breach_member_IsRetired:
  assumes "fits KBool v" and "map_of ms ''IsRetired'' = None"
  shows "\<exists>x. store_breach_member (''IsRetired'', v) (r, None) = (x, None)
           \<and> breach_with ms x = breach_with ((''IsRetired'', v) # ms) r"
proof -
  from assms(1) obtain c where v: "v = JBool c" by (cases v) simp_all
  have "store_breach_member (''IsRetired'', v) (r, None) = (r\<lparr>IsRetired := c\<rparr>, None)"
    by (simp add: store_breach_member_def find_F_IsRetired v)
  moreover have "breach_with ms (r\<lparr>IsRetired := c\<rparr>) = breach_with ((''IsRetired'', v) # ms) r"
    using assms(2) by (simp add: breach_with_def member_simps v)
  ultimately show ?thesis by simp
qed

lemma find_F_IsSpamList: "find_field breach_fields ''IsSpamList'' = Some F_IsSpamList"
  by (rule find_field_exact) (simp add: breach_fields_def)

lemma breach_member_IsSpamList:
  assumes "fits KBool v" and "map_of ms ''IsSpamList'' = None"
  shows "\<exists>x. store_breach_member (''IsSpamList'', v) (r, None) = (x, None)
           \<and> breach_with ms x = breach_with ((''IsSpamList'', v) # ms) r"
proof -
  from assms(1) obtain c where v: "v = JBool c" by (cases v) simp_all
  have "store_breach_member (''IsSpamList'', v) (r, None) = (r\<lparr>IsSpamList := c\<rparr>, None)"
    by (simp add: store_breach_member_def find_F_IsSpamList v)
  moreover have "breach_with ms (r\<lparr>IsSpamList := c\<rparr>) = breach_with ((''IsSpamList'', v) # ms) r"
    using assms(2) by (simp add: breach_with_def member_simps v)
  ultimately show ?thesis by simp
qed

lemma find_F_LogoPath: "find_field breach_fields ''LogoPath'' = Some F_LogoPath"
  by (rule find_field_exact) (simp add: breach_fields_def)

lemma breach_member_LogoPath:
  assumes "fits KString v" and "map_of ms ''LogoPath'' = None"
  shows "\<exists>x. store_breach_member (''LogoPath'', v) (r, None) = (x, None)
           \<and> breach_with ms x = breach_with ((''LogoPath'', v) # ms) r"
proof -
  from assms(1) obtain s where v: "v = JString s" by (cases v) simp_all
  have "store_breach_member (''LogoPath'', v) (r, None) = (r\<lparr>LogoPath := s\<rparr>, None)"
    by (simp add: store_breach_member_def find_F_LogoPath v)
  moreover have "breach_with ms (r\<lparr>LogoPath := s\<rparr>) = breach_with ((''LogoPath'', v) # ms) r"
    using assms(2) by (simp add: breach_with_def member_simps v)
  ultimately show ?thesis by simp
qed

lemma store_breach_member_step:
  assumes "breach_member (k, v)" and "map_of ms k = None"
  shows "\<exists>x. store_breach_member (k, v) (r, None) = (x, None)
           \<and> breach_with ms x = breach_with ((k, v) # ms) r"
proof -
  from assms(1) consider
      (Name) "k = ''Name''" "fits KString v"
    | (Title) "k = ''Title''" "fits KString v"
    | (Domain) "k = ''Domain''" "fits KString v"
    | (BreachDate) "k = ''BreachDate''" "fits KString v"
    | (AddedDate) "k = ''AddedDate''" "fits KString v"
    | (ModifiedDate) "k = ''ModifiedDate''" "fits KString v"
    | (PwnCount) "k = ''PwnCount''" "fits KInt v"
    | (Description) "k = ''Description''" "fits KString v"
    | (DataClasses) "k = ''DataClasses''" "fits KStrings v"
    | (IsVerified) "k = ''IsVerified''" "fits KBool v"
    | (IsFabricated) "k = ''IsFabricated''" "fits KBool v"
    | (IsSensitive) "k = ''IsSensitive''" "fits KBool v"
    | (IsRetired) "k = ''IsRetired''" "fits KBool v"
    | (IsSpamList) "k = ''IsSpamList''" "fits KBool v"
    | (LogoPath) "k = ''LogoPath''" "fits KString v"
    by (auto simp: breach_member_def breach_fields_def split: if_splits)
  then show ?thesis
  proof cases
    case Name
    show ?thesis using breach_member_Name [OF Name(2)] assms(2) by (simp add: Name(1))
  next
    case Title
    show ?thesis using breach_member_Title [OF Title(2)] assms(2) by (simp add: Title(1))
  next
    case Domain
    show ?thesis using breach_member_Domain [OF Domain(2)] assms(2) by (simp add: Domain(1))
  next
    case BreachDate
    show ?thesis using breach_member_BreachDate [OF BreachDate(2)] assms(2) by (simp add: BreachDate(1))
  next
    case AddedDate
    show ?thesis using breach_member_AddedDate [OF AddedDate(2)] assms(2) by (simp add: AddedDate(1))
  next
    case ModifiedDate
    show ?thesis using breach_member_ModifiedDate [OF ModifiedDate(2)] assms(2) by (simp add: ModifiedDate(1))
  next
    case PwnCount
    show ?thesis using breach_member_PwnCount [OF PwnCount(2)] assms(2) by (simp add: PwnCount(1))
  next
    case Description
    show ?thesis using breach_member_Description [OF Description(2)] assms(2) by (simp add: Description(1))
  next
    case DataClasses
    show ?thesis using breach_member_DataClasses [OF DataClasses(2)] assms(2) by (simp add: DataClasses(1))
  next
    case IsVerified
    show ?thesis using breach_member_IsVerified [OF IsVerified(2)] assms(2) by (simp add: IsVerified(1))
  next
    case IsFabricated
    show ?thesis using breach_member_IsFabricated [OF IsFabricated(2)] assms(2) by (simp add: IsFabricated(1))
  next
    case IsSensitive
    show ?thesis using breach_member_IsSensitive [OF IsSensitive(2)] assms(2) by (simp add: IsSensitive(1))
  next
    case IsRetired
    show ?thesis using breach_member_IsRetired [OF IsRetired(2)] assms(2) by (simp add: IsRetired(1))
  next
    case IsSpamList
    show ?thesis using breach_member_IsSpamList [OF IsSpamList(2)] assms(2) by (simp add: IsSpamList(1))
  next
    case LogoPath
    show ?thesis using breach_member_LogoPath [OF LogoPath(2)] assms(2) by (simp add: LogoPath(1))
  qed
qed

lemma find_F_Source: "find_field paste_fields ''Source'' = Some F_Source"
  by (rule find_field_exact) (simp add: paste_fields_def)

lemma paste_member_Source:
  assumes "fits KString v" and "map_of ms ''Source'' = None"
  shows "\<exists>x. store_paste_member (''Source'', v) (r, None) = (x, None)
           \<and> paste_with ms x = paste_with ((''Source'', v) # ms) r"
proof -
  from assms(1) obtain s where v: "v = JString s" by (cases v) simp_all
  have "store_paste_member (''Source'', v) (r, None) = (r\<lparr>Source := s\<rparr>, None)"
    by (simp add: store_paste_member_def find_F_Source v)
  moreover have "paste_with ms (r\<lparr>Source := s\<rparr>) = paste_with ((''Source'', v) # ms) r"
    using assms(2) by (simp add: paste_with_def member_simps v)
  ultimately show ?thesis by simp
qed

lemma find_F_Id: "find_field paste_fields ''Id'' = Some F_Id"
  by (rule find_field_exact) (simp add: paste_fields_def)

lemma paste_member_Id:
  assumes "fits KString v" and "map_of ms ''Id'' = None"
  shows "\<exists>x. store_paste_member (''Id'', v) (r, None) = (x, None)
           \<and> paste_with ms x = paste_with ((''Id'', v) # ms) r"
proof -
  from assms(1) obtain s where v: "v = JString s" by (cases v) simp_all
  have "store_paste_member (''Id'', v) (r, None) = (r\<lparr>ID := s\<rparr>, None)"
    by (simp add: store_paste_member_def find_F_Id v)
  moreover have "paste_with ms (r\<lparr>ID := s\<rparr>) = paste_with ((''Id'', v) # ms) r"
    using assms(2) by (simp add: paste_with_def member_simps v)
  ultimately show ?thesis by simp
qed

lemma find_F_PasteTitle: "find_field paste_fields ''Title'' = Some F_PasteTitle"
  by (rule find_field_exact) (simp add: paste_fields_def)

lemma paste_member_PasteTitle:
  assumes "fits KString v" and "map_of ms ''Title'' = None"
  shows "\<exists>x. store_paste_member (''Title'', v) (r, None) = (x, None)
           \<and> paste_with ms x = paste_with ((''Title'', v) # ms) r"
proof -
  from assms(1) obtain s where v: "v = JString s" by (cases v) simp_all
  have "store_paste_member (''Title'', v) (r, None) = (r\<lparr>PasteTitle := s\<rparr>, None)"
    by (simp add: store_paste_member_def find_F_PasteTitle v)
  moreover have "paste_with ms (r\<lparr>PasteTitle := s\<rparr>) = paste_with ((''Title'', v) # ms) r"
    using assms(2) by (simp add: paste_with_def member_simps v)
  ultimately show ?thesis by simp
qed

lemma find_F_Date: "find_field paste_fields ''Date'' = Some F_Date"
  by (rule find_field_exact) (simp add: paste_fields_def)

lemma paste_member_Date:
  assumes "fits KString v" and "map_of ms ''Date'' = None"
  shows "\<exists>x. store_paste_member (''Date'', v) (r, None) = (x, None)
           \<and> paste_with ms x = paste_with ((''Date'', v) # ms) r"
proof -
  from assms(1) obtain s where v: "v = JString s" by (cases v) simp_all
  have "store_paste_member (''Date'', v) (r, None) = (r\<lparr>Date := s\<rparr>, None)"
    by (simp add: store_paste_member_def find_F_Date v)
  moreover have "paste_with ms (r\<lparr>Date := s\<rparr>) = paste_with ((''Date'', v) # ms) r"
    using assms(2) by (simp add: paste_with_def member_simps v)
  ultimately show ?thesis by simp
qed

lemma find_F_EmailCount: "find_field paste_fields ''EmailCount'' = Some F_EmailCount"
  by (rule find_field_exact) (simp add: paste_fields_def)

lemma paste_member_EmailCount:
  assumes "fits KInt v" and "map_of ms ''EmailCount'' = None"
  shows "\<exists>x. store_paste_member (''EmailCount'', v) (r, None) = (x, None)
           \<and> paste_with ms x = paste_with ((''EmailCount'', v) # ms) r"
proof -
  from assms(1) obtain i where v: "v = JInt i" and i: "- (2 ^ 63) \<le> i" "i < 2 ^ 63"
    by (cases v) simp_all
  have "store_paste_member (''EmailCount'', v) (r, None) = (r\<lparr>EmailCount := word_of_int i\<rparr>, None)"
    using i by (simp add: store_paste_member_def find_F_EmailCount v)
  moreover have "paste_with ms (r\<lparr>EmailCount := word_of_int i\<rparr>) = paste_with ((''EmailCount'', v) # ms) r"
    using assms(2) by (simp add: paste_with_def member_simps v)
  ultimately show ?thesis by simp
qed

lemma store_paste_member_step:
  assumes "paste_member (k, v)" and "map_of ms k = None"
  shows "\<exists>x. store_paste_member (k, v) (r, None) = (x, None)
           \<and> paste_with ms x = paste_with ((k, v) # ms) r"
proof -
  from assms(1) consider
      (Source) "k = ''Source''" "fits KString v"
    | (Id) "k = ''Id''" "fits KString v"
    | (PasteTitle) "k = ''Title''" "fits KString v"
    | (Date) "k = ''Date''" "fits KString v"
    | (EmailCount) "k = ''EmailCount''" "fits KInt v"
    by (auto simp: paste_member_def paste_fields_def split: if_splits)
  then show ?thesis
  proof cases
    case Source
    show ?thesis using paste_member_Source [OF Source(2)] assms(2) by (simp add: Source(1))
  next
    case Id
    show ?thesis using paste_member_Id [OF Id(2)] assms(2) by (simp add: Id(1))
  next
    case PasteTitle
    show ?thesis using paste_member_PasteTitle [OF PasteTitle(2)] assms(2) by (simp add: PasteTitle(1))
  next
    case Date
    show ?thesis using paste_member_Date [OF Date(2)] assms(2) by (simp add: Date(1))
  next
    case EmailCount
    show ?thesis using paste_member_EmailCount [OF EmailCount(2)] assms(2) by (simp add: EmailCount(1))
  qed
qed

lemma breach_with_Nil: "breach_with [] b = b"
  by (simp add: breach_with_def string_member_def int_member_def bool_member_def
      strings_member_def)

lemma paste_with_Nil: "paste_with [] p = p"
  by (simp add: paste_with_def string_member_def int_member_def)

lemma fold_store_breach_member:
  "breach_object ms \<Longrightarrow> fold store_breach_member ms (b, None) = (breach_with ms b, None)"
proof (induction ms arbitrary: b)
  case Nil
  show ?case by (simp add: breach_with_Nil)
next
  case (Cons m ms)
  obtain k v where m: "m = (k, v)" by (cases m)
  from Cons.prems have mem: "breach_member (k, v)" and none: "map_of ms k = None"
    and rest: "breach_object ms"
    by (auto simp: breach_object_def m map_of_eq_None_iff)
  from store_breach_member_step [OF mem none] obtain x where
    x: "store_breach_member (k, v) (b, None) = (x, None)"
       "breach_with ms x = breach_with ((k, v) # ms) b" by blast
  show ?case using Cons.IH [OF rest, of x] x by (simp add: m)
qed

lemma fold_store_paste_member:
  "paste_object ms \<Longrightarrow> fold store_paste_member ms (p, None) = (paste_with ms p, None)"
proof (induction ms arbitrary: p)
  case Nil
  show ?case by (simp add: paste_with_Nil)
next
  case (Cons m ms)
  obtain k v where m: "m = (k, v)" by (cases m)
  from Cons.prems have mem: "paste_member (k, v)" and none: "map_of ms k = None"
    and rest: "paste_object ms"
    by (auto simp: paste_object_def m map_of_eq_None_iff)
  from store_paste_member_step [OF mem none] obtain x where
    x: "store_paste_member (k, v) (p, None) = (x, None)"
       "paste_with ms x = paste_with ((k, v) # ms) p" by blast
  show ?case using Cons.IH [OF rest, of x] x by (simp add: m)
qed

lemma store_array_breaches:
  "list_all breach_object os \<Longrightarrow>
   store_array store_BreachModel zero_BreachModel (map JObject os) [] None
     = (map breach_of_object os, None)"
  by (induction os) (simp_all add: fold_store_breach_member breach_of_object_def)

lemma store_array_pastes:
  "list_all paste_object os \<Longrightarrow>
   store_array store_PasteModel zero_PasteModel (map JObject os) [] None
     = (map paste_of_object os, None)"
  by (induction os) (simp_all add: fold_store_paste_member paste_of_object_def)

subsection \<open>What the operations send\<close>

lemmas op_defs =
  BreachedAccount_def Breaches_def Breach_def PasteAccount_def deref_def result_def events_def
  ReadAll_def

lemma sent_callService:
  "sent (snd (callService E service account domainFilter trunc unverified))
     = [service_request E service account domainFilter trunc unverified]"
  by (simp add: callService_def Let_def split: prod.splits option.splits)

lemma sent_append: "sent (xs @ ys) = sent xs @ sent ys"
  by (induction xs rule: sent.induct) simp_all

lemma sent_BreachedAccount:
  "sent (events (BreachedAccount E account domainFilter trunc unverified))
     = [service_request E ''breachedaccount'' account domainFilter trunc unverified]"
  using sent_callService [of E "''breachedaccount''" account domainFilter trunc unverified]
  by (auto simp: BreachedAccount_def events_def sent_append
      split: prod.splits option.splits outcome.splits)

lemma sent_Breaches:
  "sent (events (Breaches E domainFilter)) = [service_request E ''breaches'' [] [] False False]"
  using sent_callService [of E "''breaches''" "[]" "[]" False False]
  by (auto simp: Breaches_def events_def sent_append
      split: prod.splits option.splits outcome.splits)

text \<open>
  C1. For \<^verbatim>\<open>Breaches\<close>, a non-empty \<open>domainFilter\<close> is said to put
  \<^verbatim>\<open>domain=<filter>\<close> into the query string of the outgoing request, and an empty one to
  leave the parameter out. The operation does not hand its argument on: line 73 calls
  \<^verbatim>\<open>callService("breaches", "", "", false, false)\<close>, so whatever the filter is, the one
  request that is sent has the query string \<^verbatim>\<open>truncateResponse=false\<close>, with no
  \<^verbatim>\<open>domain\<close> parameter in it. \<^verbatim>\<open>BreachedAccount\<close> does pass its filter on.
\<close>

theorem Breaches_drops_domainFilter:
  "queries (Breaches E domainFilter) = [''truncateResponse=false'']"
  by (simp add: queries_def sent_Breaches service_request_def service_url_def Let_def
      encode_parameters)

text \<open>
  The sibling operation does send the filter, query-escaped, whenever it is not empty.
\<close>

lemma BreachedAccount_sends_domainFilter:
  "domainFilter \<noteq> [] \<Longrightarrow>
   \<exists>q. queries (BreachedAccount E account domainFilter trunc unverified) = [q]
     \<and> sublist (''domain='' @ QueryEscape domainFilter) q"
  using query_domain_pos [of domainFilter trunc unverified]
  by (simp add: queries_def sent_BreachedAccount service_request_def service_url_def Let_def)

text \<open>
  C6. For every call of \<^verbatim>\<open>BreachedAccount\<close>, exactly one request is sent, and its query
  string contains \<^verbatim>\<open>truncateResponse=false\<close> if and only if \<open>truncate\<close> is false, and
  \<^verbatim>\<open>includeUnverified=true\<close> if and only if \<open>includeUnverified\<close> is true. Where a
  parameter is not sent, not even its name followed by \<^verbatim>\<open>=\<close> occurs in the query
  string, whatever the domain filter is.
\<close>

theorem BreachedAccount_query:
  "\<exists>q. queries (BreachedAccount E account domainFilter trunc unverified) = [q]
     \<and> (sublist ''truncateResponse=false'' q \<longleftrightarrow> \<not> trunc)
     \<and> (sublist ''truncateResponse='' q \<longleftrightarrow> \<not> trunc)
     \<and> (sublist ''includeUnverified=true'' q \<longleftrightarrow> unverified)
     \<and> (sublist ''includeUnverified='' q \<longleftrightarrow> unverified)"
  by (simp add: queries_def sent_BreachedAccount service_request_def service_url_def Let_def
      query_trunc query_unverified)

theorem BreachedAccount_query_witness:
  "\<exists>q. queries (BreachedAccount (stub_env (Some (response 200 ''[]''), None) [])
            ''test@example.com'' ''truncateResponse=false'' True True) = [q]
     \<and> \<not> sublist ''truncateResponse=false'' q
     \<and> sublist ''includeUnverified=true'' q"
  using BreachedAccount_query [where E = "stub_env (Some (response 200 ''[]''), None) []"
      and account = "''test@example.com''" and domainFilter = "''truncateResponse=false''"
      and trunc = True and unverified = True]
  by blast

subsection \<open>The status of the response\<close>

text \<open>
  C4. Whatever the operation, a response with status 400 gives the error
  \<open>InvalidFormat\<close>, one with status 401 the error \<open>Unauthorized\<close> and one with status 429
  the error \<open>RateLimited\<close>, and no data beside the error: a nil slice from the three list
  operations, the zero record from \<^verbatim>\<open>Breach\<close>.
\<close>

theorem status_errors:
  "(Do E (service_request E ''breachedaccount'' account domainFilter trunc unverified)
       = (Some r, err) \<longrightarrow>
      (StatusCode r = 400 \<longrightarrow>
         result (BreachedAccount E account domainFilter trunc unverified)
           = Returned (NilSlice, Some InvalidFormat)) \<and>
      (StatusCode r = 401 \<longrightarrow>
         result (BreachedAccount E account domainFilter trunc unverified)
           = Returned (NilSlice, Some Unauthorized)) \<and>
      (StatusCode r = 429 \<longrightarrow>
         result (BreachedAccount E account domainFilter trunc unverified)
           = Returned (NilSlice, Some RateLimited)))
   \<and> (Do E (service_request E ''breaches'' [] [] False False) = (Some r, err) \<longrightarrow>
      (StatusCode r = 400 \<longrightarrow>
         result (Breaches E domainFilter) = Returned (NilSlice, Some InvalidFormat)) \<and>
      (StatusCode r = 401 \<longrightarrow>
         result (Breaches E domainFilter) = Returned (NilSlice, Some Unauthorized)) \<and>
      (StatusCode r = 429 \<longrightarrow>
         result (Breaches E domainFilter) = Returned (NilSlice, Some RateLimited)))
   \<and> (Do E (service_request E ''breach'' name [] False False) = (Some r, err) \<longrightarrow>
      (StatusCode r = 400 \<longrightarrow>
         result (Breach E name) = Returned (zero_BreachModel, Some InvalidFormat)) \<and>
      (StatusCode r = 401 \<longrightarrow>
         result (Breach E name) = Returned (zero_BreachModel, Some Unauthorized)) \<and>
      (StatusCode r = 429 \<longrightarrow>
         result (Breach E name) = Returned (zero_BreachModel, Some RateLimited)))
   \<and> (Do E (service_request E ''pasteaccount'' email [] False False) = (Some r, err) \<longrightarrow>
      (StatusCode r = 400 \<longrightarrow>
         result (PasteAccount E email) = Returned (NilSlice, Some InvalidFormat)) \<and>
      (StatusCode r = 401 \<longrightarrow>
         result (PasteAccount E email) = Returned (NilSlice, Some Unauthorized)) \<and>
      (StatusCode r = 429 \<longrightarrow>
         result (PasteAccount E email) = Returned (NilSlice, Some RateLimited)))"
  by (simp add: callService_response op_defs)

theorem status_errors_witness:
  "Do (stub_env (Some (response 400 []), None) [])
      (service_request (stub_env (Some (response 400 []), None) []) ''breachedaccount''
         ''not an account'' [] False False) = (Some (response 400 []), None)
   \<and> StatusCode (response 400 []) = 400
   \<and> result (BreachedAccount (stub_env (Some (response 400 []), None) [])
        ''not an account'' [] False False) = Returned (NilSlice, Some InvalidFormat)
   \<and> Do (stub_env (Some (response 401 []), None) [])
      (service_request (stub_env (Some (response 401 []), None) []) ''breach''
         ''Adobe'' [] False False) = (Some (response 401 []), None)
   \<and> StatusCode (response 401 []) = 401
   \<and> result (Breach (stub_env (Some (response 401 []), None) []) ''Adobe'')
        = Returned (zero_BreachModel, Some Unauthorized)
   \<and> Do (stub_env (Some (response 429 []), None) [])
      (service_request (stub_env (Some (response 429 []), None) []) ''pasteaccount''
         ''test@example.com'' [] False False) = (Some (response 429 []), None)
   \<and> StatusCode (response 429 []) = 429
   \<and> result (PasteAccount (stub_env (Some (response 429 []), None) []) ''test@example.com'')
        = Returned (NilSlice, Some RateLimited)"
  using
    status_errors [where E = "stub_env (Some (response 400 []), None) []"
      and r = "response 400 []" and err = None and account = "''not an account''"
      and domainFilter = "[]" and trunc = False and unverified = False]
    status_errors [where E = "stub_env (Some (response 401 []), None) []"
      and r = "response 401 []" and err = None and name = "''Adobe''"]
    status_errors [where E = "stub_env (Some (response 429 []), None) []"
      and r = "response 429 []" and err = None and email = "''test@example.com''"]
  by (simp add: stub_env_def response_def)

text \<open>
  C3. Whatever the operation, a response with status 404 gives no error and an empty result:
  the nil slice, of length 0, from the three list operations and the zero record, every field
  at its default, from \<^verbatim>\<open>Breach\<close>.
\<close>

theorem not_found_is_empty:
  "(Do E (service_request E ''breachedaccount'' account domainFilter trunc unverified)
       = (Some r, None) \<and> StatusCode r = 404 \<longrightarrow>
      result (BreachedAccount E account domainFilter trunc unverified)
        = Returned (NilSlice, None))
   \<and> (Do E (service_request E ''breaches'' [] [] False False) = (Some r, None)
       \<and> StatusCode r = 404 \<longrightarrow>
      result (Breaches E domainFilter) = Returned (NilSlice, None))
   \<and> (Do E (service_request E ''breach'' name [] False False) = (Some r, None)
       \<and> StatusCode r = 404 \<longrightarrow>
      result (Breach E name) = Returned (zero_BreachModel, None))
   \<and> (Do E (service_request E ''pasteaccount'' email [] False False) = (Some r, None)
       \<and> StatusCode r = 404 \<longrightarrow>
      result (PasteAccount E email) = Returned (NilSlice, None))"
  by (simp add: callService_response op_defs status_defs)

theorem not_found_is_empty_witness:
  "Do (stub_env (Some (response 404 []), None) [])
      (service_request (stub_env (Some (response 404 []), None) []) ''breach''
         ''NonexistentBreach'' [] False False) = (Some (response 404 []), None)
   \<and> StatusCode (response 404 []) = 404
   \<and> result (Breach (stub_env (Some (response 404 []), None) []) ''NonexistentBreach'')
        = Returned (zero_BreachModel, None)
   \<and> result (BreachedAccount (stub_env (Some (response 404 []), None) [])
        ''test@example.com'' [] False False) = Returned (NilSlice, None)
   \<and> result (Breaches (stub_env (Some (response 404 []), None) []) [])
        = Returned (NilSlice, None)
   \<and> result (PasteAccount (stub_env (Some (response 404 []), None) []) ''test@example.com'')
        = Returned (NilSlice, None)"
  using not_found_is_empty [where E = "stub_env (Some (response 404 []), None) []"
      and r = "response 404 []" and name = "''NonexistentBreach''"
      and account = "''test@example.com''" and domainFilter = "[]" and trunc = False
      and unverified = False and email = "''test@example.com''"]
  by (simp add: stub_env_def response_def)

text \<open>
  C2. A transport that fails before there is a status is said to give the caller a transport
  error and no crash. \<^verbatim>\<open>client.Do\<close> then returns a nil response beside its error, and
  line 176 reads \<^verbatim>\<open>res.StatusCode\<close> before line 185 looks at the error: every one of the
  four operations panics on the nil pointer, and the error never reaches the caller.
\<close>

theorem transport_failure_panics:
  "(Do E (service_request E ''breachedaccount'' account domainFilter trunc unverified)
       = (None, Some e) \<longrightarrow>
      result (BreachedAccount E account domainFilter trunc unverified) = Panicked)
   \<and> (Do E (service_request E ''breaches'' [] [] False False) = (None, Some e) \<longrightarrow>
      result (Breaches E domainFilter) = Panicked)
   \<and> (Do E (service_request E ''breach'' name [] False False) = (None, Some e) \<longrightarrow>
      result (Breach E name) = Panicked)
   \<and> (Do E (service_request E ''pasteaccount'' email [] False False) = (None, Some e) \<longrightarrow>
      result (PasteAccount E email) = Panicked)"
  by (simp add: callService_nil op_defs)

theorem transport_failure_panics_witness:
  "Do (stub_env (None, Some (TransportFailure ''no such host'')) [])
      (service_request (stub_env (None, Some (TransportFailure ''no such host'')) [])
         ''breachedaccount'' ''test@example.com'' [] False False)
     = (None, Some (TransportFailure ''no such host''))
   \<and> result (BreachedAccount (stub_env (None, Some (TransportFailure ''no such host'')) [])
        ''test@example.com'' [] False False) = Panicked
   \<and> result (Breaches (stub_env (None, Some (TransportFailure ''no such host'')) []) [])
        = Panicked
   \<and> result (Breach (stub_env (None, Some (TransportFailure ''no such host'')) []) ''Adobe'')
        = Panicked
   \<and> result (PasteAccount (stub_env (None, Some (TransportFailure ''no such host'')) [])
        ''test@example.com'') = Panicked"
  using transport_failure_panics
    [where E = "stub_env (None, Some (TransportFailure ''no such host'')) []"
      and e = "TransportFailure ''no such host''" and account = "''test@example.com''"
      and domainFilter = "[]" and trunc = False and unverified = False
      and name = "''Adobe''" and email = "''test@example.com''"]
  by (simp add: stub_env_def)

subsection \<open>The body of the response\<close>

lemma Unmarshal_breaches:
  "parse E body = Some (JArray (map JObject os)) \<Longrightarrow> list_all breach_object os \<Longrightarrow>
   Unmarshal E (store_slice store_BreachModel zero_BreachModel) body (Slice [])
     = (Slice (map breach_of_object os), None)"
  by (simp add: Unmarshal_def store_array_breaches)

lemma Unmarshal_pastes:
  "parse E body = Some (JArray (map JObject os)) \<Longrightarrow> list_all paste_object os \<Longrightarrow>
   Unmarshal E (store_slice store_PasteModel zero_PasteModel) body (Slice [])
     = (Slice (map paste_of_object os), None)"
  by (simp add: Unmarshal_def store_array_pastes)

lemma Unmarshal_breach:
  "parse E body = Some (JObject ms) \<Longrightarrow> breach_object ms \<Longrightarrow>
   Unmarshal E store_BreachModel_ptr body (Some zero_BreachModel)
     = (Some (breach_of_object ms), None)"
  by (simp add: Unmarshal_def fold_store_breach_member breach_of_object_def)

lemma service_request_Do:
  "service_request (E\<lparr>Do := d\<rparr>) service account domainFilter trunc unverified
     = service_request E service account domainFilter trunc unverified"
  by (simp add: service_request_def)

lemma Unmarshal_Do: "Unmarshal (E\<lparr>Do := d\<rparr>) store body v = Unmarshal E store body v"
  by (simp add: Unmarshal_def)

text \<open>
  C7. A response with status 200 whose body is a JSON array of two breach objects makes
  \<^verbatim>\<open>BreachedAccount\<close> and \<^verbatim>\<open>Breaches\<close> return no error and a slice of exactly two
  records, the first equal to the first object field for field and the second to the second:
  every field has the value of the member of its name, and its default where the object has
  no such member. A breach object is an object whose members bear the names of the fields,
  each at most once, with values of the fields' JSON types.
\<close>

theorem two_breaches_round_trip:
  "(Do E (service_request E ''breachedaccount'' account domainFilter trunc unverified)
       = (Some r, None)
     \<and> StatusCode r = 200 \<and> Body r = (body, None)
     \<and> parse E body = Some (JArray [JObject oa, JObject ob])
     \<and> breach_object oa \<and> breach_object ob \<longrightarrow>
      result (BreachedAccount E account domainFilter trunc unverified)
        = Returned (Slice [breach_of_object oa, breach_of_object ob], None))
   \<and> (Do E (service_request E ''breaches'' [] [] False False) = (Some r, None)
     \<and> StatusCode r = 200 \<and> Body r = (body, None)
     \<and> parse E body = Some (JArray [JObject oa, JObject ob])
     \<and> breach_object oa \<and> breach_object ob \<longrightarrow>
      result (Breaches E domainFilter)
        = Returned (Slice [breach_of_object oa, breach_of_object ob], None))"
  using Unmarshal_breaches [of E body "[oa, ob]"]
  by (simp add: callService_response op_defs status_defs)

lemmas object_defs =
  breach_object_def breach_member_def breach_fields_def breach_of_object_def breach_with_def
  string_member_def int_member_def bool_member_def strings_member_def zero_BreachModel_def

theorem two_breaches_round_trip_witness:
  "Do two_breaches_env
      (service_request two_breaches_env ''breachedaccount'' ''test@example.com'' []
         False False) = (Some (response 200 ''two breaches''), None)
   \<and> StatusCode (response 200 ''two breaches'') = 200
   \<and> Body (response 200 ''two breaches'') = (''two breaches'', None)
   \<and> parse two_breaches_env ''two breaches''
        = Some (JArray [JObject adobe_object, JObject linkedin_object])
   \<and> breach_object adobe_object
   \<and> breach_object linkedin_object
   \<and> result (BreachedAccount two_breaches_env ''test@example.com'' [] False False)
     = Returned
         (Slice [zero_BreachModel\<lparr>Name := ''Adobe'', Title := ''Adobe'',
                                   PwnCount := 152445165\<rparr>,
                 zero_BreachModel\<lparr>Name := ''LinkedIn'',
                                   DataClasses := Slice [''Email addresses'', ''Passwords''],
                                   IsVerified := True\<rparr>],
          None)"
  using two_breaches_round_trip
    [where E = two_breaches_env and r = "response 200 ''two breaches''"
      and body = "''two breaches''" and oa = adobe_object and ob = linkedin_object
      and account = "''test@example.com''" and domainFilter = "[]" and trunc = False
      and unverified = False]
  by (simp add: two_breaches_env_def adobe_object_def linkedin_object_def stub_env_def
      response_def object_defs)



text \<open>
  A body that is JSON but not of the expected shape is another matter: the decoder stores
  what fits and reports the first value that does not, and \<^verbatim>\<open>Breach\<close> returns the
  record as it then stands beside the error (the list operations return the nil slice).
\<close>

lemma Breach_mismatch_keeps_fields:
  "result (Breach
     (stub_env (Some (response 200 ''count as string''), None)
        [(''count as string'',
          JObject [(''Name'', JString ''Adobe''), (''PwnCount'', JString ''many'')])])
     ''Adobe'')
   = Returned (zero_BreachModel\<lparr>Name := ''Adobe''\<rparr>, Some (UnmarshalTypeError ''int''))"
  by (simp add: callService_def Let_def op_defs status_defs Unmarshal_def stub_env_def
      response_def store_breach_member_def find_F_Name find_F_PwnCount saveError_def
      zero_BreachModel_def)

text \<open>
  C10. A response with status 200 whose body is the empty JSON array makes each of the three
  list operations return no error and a slice that is empty but not nil, where the 404 path
  returns the nil slice.
\<close>

theorem empty_array_is_empty_slice:
  "(Do E (service_request E ''breachedaccount'' account domainFilter trunc unverified)
       = (Some r, None)
     \<and> StatusCode r = 200 \<and> Body r = (body, None) \<and> parse E body = Some (JArray []) \<longrightarrow>
      result (BreachedAccount E account domainFilter trunc unverified)
        = Returned (Slice [], None))
   \<and> (Do E (service_request E ''breaches'' [] [] False False) = (Some r, None)
     \<and> StatusCode r = 200 \<and> Body r = (body, None) \<and> parse E body = Some (JArray []) \<longrightarrow>
      result (Breaches E domainFilter) = Returned (Slice [], None))
   \<and> (Do E (service_request E ''pasteaccount'' email [] False False) = (Some r, None)
     \<and> StatusCode r = 200 \<and> Body r = (body, None) \<and> parse E body = Some (JArray []) \<longrightarrow>
      result (PasteAccount E email) = Returned (Slice [], None))"
  by (simp add: callService_response op_defs status_defs Unmarshal_def)

theorem empty_array_is_empty_slice_witness:
  "Do (stub_env (Some (response 200 ''[]''), None) [(''[]'', JArray [])])
      (service_request (stub_env (Some (response 200 ''[]''), None) [(''[]'', JArray [])])
         ''pasteaccount'' ''test@example.com'' [] False False)
     = (Some (response 200 ''[]''), None)
   \<and> StatusCode (response 200 ''[]'') = 200
   \<and> Body (response 200 ''[]'') = (''[]'', None)
   \<and> parse (stub_env (Some (response 200 ''[]''), None) [(''[]'', JArray [])]) ''[]''
        = Some (JArray [])
   \<and> result (PasteAccount (stub_env (Some (response 200 ''[]''), None) [(''[]'', JArray [])])
        ''test@example.com'') = Returned (Slice [], None)
   \<and> result (BreachedAccount
        (stub_env (Some (response 200 ''[]''), None) [(''[]'', JArray [])])
        ''test@example.com'' [] False False) = Returned (Slice [], None)
   \<and> result (Breaches (stub_env (Some (response 200 ''[]''), None) [(''[]'', JArray [])]) [])
        = Returned (Slice [], None)"
  using empty_array_is_empty_slice
    [where E = "stub_env (Some (response 200 ''[]''), None) [(''[]'', JArray [])]"
      and r = "response 200 ''[]''" and body = "''[]''"
      and account = "''test@example.com''" and domainFilter = "[]" and trunc = False
      and unverified = False and email = "''test@example.com''"]
  by (simp add: stub_env_def response_def)

text \<open>
  C9. A response whose status is none of 400, 401, 404 and 429 comes back from
  \<^verbatim>\<open>callService\<close> as it is, with no error, and every operation goes on to read and decode
  its body: the result is the one that the same response with status 200 gives. So a body
  that is a JSON array of breach objects (of paste objects for \<^verbatim>\<open>PasteAccount\<close>, one
  breach object for \<^verbatim>\<open>Breach\<close>) gives the records of these objects and no error, under a
  status such as 500 or 503 too.
\<close>

theorem unlisted_status_is_decoded:
  "(Do E (service_request E ''breachedaccount'' account domainFilter trunc unverified)
       = (Some r, None)
     \<and> StatusCode r \<notin> {400, 401, 404, 429} \<longrightarrow>
      callService E ''breachedaccount'' account domainFilter trunc unverified
        = (Returned (Some r, None),
           [Send (service_request E ''breachedaccount'' account domainFilter trunc
              unverified)])
      \<and> result (BreachedAccount E account domainFilter trunc unverified)
        = result (BreachedAccount (E\<lparr>Do := \<lambda>_. (Some (r\<lparr>StatusCode := 200\<rparr>), None)\<rparr>)
            account domainFilter trunc unverified)
      \<and> (Body r = (body, None) \<and> parse E body = Some (JArray (map JObject os))
          \<and> list_all breach_object os \<longrightarrow>
         result (BreachedAccount E account domainFilter trunc unverified)
           = Returned (Slice (map breach_of_object os), None)))
   \<and> (Do E (service_request E ''breaches'' [] [] False False) = (Some r, None)
     \<and> StatusCode r \<notin> {400, 401, 404, 429} \<longrightarrow>
      callService E ''breaches'' [] [] False False
        = (Returned (Some r, None), [Send (service_request E ''breaches'' [] [] False False)])
      \<and> result (Breaches E domainFilter)
        = result (Breaches (E\<lparr>Do := \<lambda>_. (Some (r\<lparr>StatusCode := 200\<rparr>), None)\<rparr>)
            domainFilter)
      \<and> (Body r = (body, None) \<and> parse E body = Some (JArray (map JObject os))
          \<and> list_all breach_object os \<longrightarrow>
         result (Breaches E domainFilter)
           = Returned (Slice (map breach_of_object os), None)))
   \<and> (Do E (service_request E ''breach'' name [] False False) = (Some r, None)
     \<and> StatusCode r \<notin> {400, 401, 404, 429} \<longrightarrow>
      callService E ''breach'' name [] False False
        = (Returned (Some r, None), [Send (service_request E ''breach'' name [] False False)])
      \<and> result (Breach E name)
        = result (Breach (E\<lparr>Do := \<lambda>_. (Some (r\<lparr>StatusCode := 200\<rparr>), None)\<rparr>) name)
      \<and> (Body r = (body, None) \<and> parse E body = Some (JObject ms)
          \<and> breach_object ms \<longrightarrow>
         result (Breach E name) = Returned (breach_of_object ms, None)))
   \<and> (Do E (service_request E ''pasteaccount'' email [] False False) = (Some r, None)
     \<and> StatusCode r \<notin> {400, 401, 404, 429} \<longrightarrow>
      callService E ''pasteaccount'' email [] False False
        = (Returned (Some r, None),
           [Send (service_request E ''pasteaccount'' email [] False False)])
      \<and> result (PasteAccount E email)
        = result (PasteAccount (E\<lparr>Do := \<lambda>_. (Some (r\<lparr>StatusCode := 200\<rparr>), None)\<rparr>) email)
      \<and> (Body r = (body, None) \<and> parse E body = Some (JArray (map JObject ps))
          \<and> list_all paste_object ps \<longrightarrow>
         result (PasteAccount E email)
           = Returned (Slice (map paste_of_object ps), None)))"
  using Unmarshal_breaches [of E body os] Unmarshal_breach [of E body ms]
    Unmarshal_pastes [of E body ps]
  by (simp add: callService_response op_defs status_defs service_request_Do Unmarshal_Do)

theorem unlisted_status_is_decoded_witness:
  "Do (stub_env (Some (response 500 ''one breach''), None)
         [(''one breach'', JArray [JObject [(''Name'', JString ''Adobe'')]])])
      (service_request
         (stub_env (Some (response 500 ''one breach''), None)
            [(''one breach'', JArray [JObject [(''Name'', JString ''Adobe'')]])])
         ''breachedaccount'' ''test@example.com'' [] False False)
     = (Some (response 500 ''one breach''), None)
   \<and> StatusCode (response 500 ''one breach'') \<notin> {400, 401, 404, 429}
   \<and> Body (response 500 ''one breach'') = (''one breach'', None)
   \<and> list_all breach_object [[(''Name'', JString ''Adobe'')]]
   \<and> result (BreachedAccount
        (stub_env (Some (response 500 ''one breach''), None)
           [(''one breach'', JArray [JObject [(''Name'', JString ''Adobe'')]])])
        ''test@example.com'' [] False False)
     = Returned (Slice [zero_BreachModel\<lparr>Name := ''Adobe''\<rparr>], None)"
proof -
  let ?E = "stub_env (Some (response 500 ''one breach''), None)
    [(''one breach'', JArray [JObject [(''Name'', JString ''Adobe'')]])]"
  let ?r = "response 500 ''one breach''"
  have answer: "Do ?E (service_request ?E ''breachedaccount'' ''test@example.com'' []
      False False) = (Some ?r, None) \<and> StatusCode ?r \<notin> {400, 401, 404, 429}"
    by (simp add: stub_env_def response_def)
  have body: "Body ?r = (''one breach'', None)
      \<and> parse ?E ''one breach'' = Some (JArray (map JObject [[(''Name'', JString ''Adobe'')]]))
      \<and> list_all breach_object [[(''Name'', JString ''Adobe'')]]"
    by (simp add: stub_env_def response_def object_defs)
  from unlisted_status_is_decoded
    [where E = ?E and r = ?r and body = "''one breach''"
      and os = "[[(''Name'', JString ''Adobe'')]]"
      and account = "''test@example.com''" and domainFilter = "[]" and trunc = False
      and unverified = False]
    answer body
  have "result (BreachedAccount ?E ''test@example.com'' [] False False)
      = Returned (Slice (map breach_of_object [[(''Name'', JString ''Adobe'')]]), None)"
    by blast
  then show ?thesis using answer body by (simp add: object_defs)
qed

subsection \<open>Releasing the body\<close>

text \<open>
  C5. The body of the response is said to be consumed and released on every exit path. The
  deferred \<^verbatim>\<open>res.Body.Close()\<close> is registered only after \<^verbatim>\<open>ioutil.ReadAll\<close> has
  succeeded: on a 404, on a status that \<^verbatim>\<open>callService\<close> turns into an error, and on a
  failed read, every operation returns without closing the body (and, on the first two,
  without reading it). The exits after a successful read do close it.
\<close>

theorem body_left_open:
  "(Do E (service_request E ''breachedaccount'' account domainFilter trunc unverified)
       = (Some r, None)
     \<and> (StatusCode r \<in> {400, 401, 404, 429} \<or> snd (Body r) \<noteq> None) \<longrightarrow>
      \<not> body_closed (BreachedAccount E account domainFilter trunc unverified))
   \<and> (Do E (service_request E ''breaches'' [] [] False False) = (Some r, None)
     \<and> (StatusCode r \<in> {400, 401, 404, 429} \<or> snd (Body r) \<noteq> None) \<longrightarrow>
      \<not> body_closed (Breaches E domainFilter))
   \<and> (Do E (service_request E ''breach'' name [] False False) = (Some r, None)
     \<and> (StatusCode r \<in> {400, 401, 404, 429} \<or> snd (Body r) \<noteq> None) \<longrightarrow>
      \<not> body_closed (Breach E name))
   \<and> (Do E (service_request E ''pasteaccount'' email [] False False) = (Some r, None)
     \<and> (StatusCode r \<in> {400, 401, 404, 429} \<or> snd (Body r) \<noteq> None) \<longrightarrow>
      \<not> body_closed (PasteAccount E email))"
  by (auto simp: callService_response op_defs status_defs body_closed_def
      split: prod.splits option.splits)

theorem body_left_open_witness:
  "Do (stub_env (Some (response 404 []), None) [])
      (service_request (stub_env (Some (response 404 []), None) []) ''breach''
         ''NonexistentBreach'' [] False False) = (Some (response 404 []), None)
   \<and> StatusCode (response 404 []) \<in> {400, 401, 404, 429}
   \<and> \<not> body_closed (Breach (stub_env (Some (response 404 []), None) []) ''NonexistentBreach'')
   \<and> \<not> body_closed (BreachedAccount (stub_env (Some (response 404 []), None) [])
          ''test@example.com'' [] False False)
   \<and> \<not> body_closed (Breaches (stub_env (Some (response 404 []), None) []) [])
   \<and> \<not> body_closed (PasteAccount (stub_env (Some (response 404 []), None) [])
          ''test@example.com'')"
  using body_left_open [where E = "stub_env (Some (response 404 []), None) []"
      and r = "response 404 []" and name = "''NonexistentBreach''"
      and account = "''test@example.com''" and domainFilter = "[]" and trunc = False
      and unverified = False and email = "''test@example.com''"]
  by (simp add: stub_env_def response_def)

end
